theory Spec2Isabelle
  imports Main "HOL-Library.Word"
begin

text \<open>
  A model of the calendar assistant front end: the two versions of the voice component in
  \<open>src/components/agent.tsx\<close> (the earlier one records and sends audio, the later one
  adds typed requests) and the text-only component in
  \<open>src/components/only-for-test.tsx\<close>. Each handler of the source is a function from
  the state of its component to the new state. What the browser and the backend decide
  (the outcome of a fetch, the permission of the microphone, the data of the recorder) is
  an argument of the handler.
\<close>

section \<open>JavaScript values\<close>

text \<open>
  A string is held as the bytes of its UTF-8 encoding, so text with an unpaired surrogate
  is outside the model. An exception carries its message, which is all the handlers read.
  \<open>Error\<close> is thrown by the components, the other three by the platform.
\<close>

datatype exn =
    Error string
  | TypeError string
  | SyntaxError string
  | DOMException string string

fun message :: "exn \<Rightarrow> string" where
  "message (Error m) = m"
| "message (TypeError m) = m"
| "message (SyntaxError m) = m"
| "message (DOMException name m) = m"

text \<open>
  A parsed reply has the type \<open>any\<close> in the source, so the model keeps every JSON
  value. A number is held as the text JavaScript prints for it, which is all this code
  observes of a number. An object is the list of its members in property order, with
  distinct keys. The value \<open>undefined\<close> is \<open>None\<close>.
\<close>

datatype json =
    JNull
  | JBool bool
  | JNum string
  | JStr string
  | JArr "json list"
  | JObj "(string \<times> json) list"

text \<open>
  \<open>get_prop\<close> is the guarded read \<open>data?.k\<close>. A plain read \<open>data.k\<close> throws
  when \<open>data\<close> is \<open>null\<close>; the functions that do a plain read test for
  \<open>null\<close> first. None of the keys read by the code is a built-in property of arrays,
  strings, numbers or booleans. \<open>truthy\<close> is the test of \<open>if\<close>, \<open>&&\<close> and
  \<open>||\<close>; \<open>or_else\<close> is \<open>||\<close> and \<open>nullish\<close> is \<open>??\<close>.
\<close>

fun get_prop :: "json \<Rightarrow> string \<Rightarrow> json option" where
  "get_prop (JObj kvs) k = map_of kvs k"
| "get_prop _ k = None"

fun truthy :: "json \<Rightarrow> bool" where
  "truthy JNull = False"
| "truthy (JBool b) = b"
| "truthy (JNum n) = (n \<noteq> ''0'')"
| "truthy (JStr s) = (s \<noteq> [])"
| "truthy (JArr xs) = True"
| "truthy (JObj kvs) = True"

definition truthy_opt :: "json option \<Rightarrow> bool" where
  "truthy_opt v = (case v of None \<Rightarrow> False | Some x \<Rightarrow> truthy x)"

definition or_else :: "json option \<Rightarrow> json \<Rightarrow> json" where
  "or_else v d = (case v of None \<Rightarrow> d | Some x \<Rightarrow> if truthy x then x else d)"

definition nullish :: "json option \<Rightarrow> json \<Rightarrow> json" where
  "nullish v d = (case v of None \<Rightarrow> d | Some JNull \<Rightarrow> d | Some x \<Rightarrow> x)"

text \<open>
  \<open>to_str\<close> is the conversion to a string that the \<open>Error\<close> constructor, \<open>atob\<close>
  and the \<open>Blob\<close> constructor apply to an argument: an array is joined with commas,
  with nothing for a \<open>null\<close> element.
\<close>

fun join :: "string \<Rightarrow> string list \<Rightarrow> string" where
  "join sep [] = []"
| "join sep [x] = x"
| "join sep (x # y # ys) = x @ sep @ join sep (y # ys)"

fun to_str :: "json \<Rightarrow> string" and to_str_elems :: "json list \<Rightarrow> string list" where
  "to_str JNull = ''null''"
| "to_str (JBool b) = (if b then ''true'' else ''false'')"
| "to_str (JNum n) = n"
| "to_str (JStr s) = s"
| "to_str (JArr xs) = join '','' (to_str_elems xs)"
| "to_str (JObj kvs) = ''[object Object]''"
| "to_str_elems [] = []"
| "to_str_elems (x # xs) = (if x = JNull then [] else to_str x) # to_str_elems xs"

text \<open>
  \<open>JSON.stringify(value, null, space)\<close>: strings are quoted with the escapes of the
  language standard, and with a non-empty gap every member and element goes on a line of its
  own, indented by one more gap than its parent.
\<close>

definition hex_digit :: "nat \<Rightarrow> char" where
  "hex_digit d = (if d < 10 then char_of (48 + d) else char_of (87 + d))"

definition quote_char :: "char \<Rightarrow> string" where
  "quote_char c =
     (let n = (of_char c :: nat)
      in if n = 0x08 then [CHR 0x5C, CHR ''b'']
         else if n = 0x09 then [CHR 0x5C, CHR ''t'']
         else if n = 0x0A then [CHR 0x5C, CHR ''n'']
         else if n = 0x0C then [CHR 0x5C, CHR ''f'']
         else if n = 0x0D then [CHR 0x5C, CHR ''r'']
         else if n = 0x22 then [CHR 0x5C, CHR 0x22]
         else if n = 0x5C then [CHR 0x5C, CHR 0x5C]
         else if n < 0x20 then [CHR 0x5C, CHR ''u'', CHR ''0'', CHR ''0'', hex_digit (n div 16), hex_digit (n mod 16)]
         else [c])"

definition quote :: "string \<Rightarrow> string" where
  "quote s = [CHR 0x22] @ concat (map quote_char s) @ [CHR 0x22]"

fun serialize :: "string \<Rightarrow> string \<Rightarrow> json \<Rightarrow> string"
  and serialize_elems :: "string \<Rightarrow> string \<Rightarrow> json list \<Rightarrow> string list"
  and serialize_members :: "string \<Rightarrow> string \<Rightarrow> (string \<times> json) list \<Rightarrow> string list" where
  "serialize gap indent JNull = ''null''"
| "serialize gap indent (JBool b) = (if b then ''true'' else ''false'')"
| "serialize gap indent (JNum n) =
     (if n \<in> set [''Infinity'', ''-Infinity'', ''NaN''] then ''null'' else n)"
| "serialize gap indent (JStr s) = quote s"
| "serialize gap indent (JArr xs) =
     (if xs = [] then ''[]''
      else if gap = [] then ''['' @ join '','' (serialize_elems gap (indent @ gap) xs) @ '']''
      else ''['' @ [CHR 0x0A] @ indent @ gap
             @ join ('','' @ [CHR 0x0A] @ indent @ gap) (serialize_elems gap (indent @ gap) xs)
             @ [CHR 0x0A] @ indent @ '']'')"
| "serialize gap indent (JObj kvs) =
     (if kvs = [] then ''{}''
      else if gap = [] then ''{'' @ join '','' (serialize_members gap (indent @ gap) kvs) @ ''}''
      else ''{'' @ [CHR 0x0A] @ indent @ gap
             @ join ('','' @ [CHR 0x0A] @ indent @ gap) (serialize_members gap (indent @ gap) kvs)
             @ [CHR 0x0A] @ indent @ ''}'')"
| "serialize_elems gap indent [] = []"
| "serialize_elems gap indent (x # xs) = serialize gap indent x # serialize_elems gap indent xs"
| "serialize_members gap indent [] = []"
| "serialize_members gap indent ((k, v) # kvs) =
     (quote k @ '':'' @ (if gap = [] then [] else '' '') @ serialize gap indent v)
       # serialize_members gap indent kvs"

definition JSON_stringify :: "json \<Rightarrow> nat \<Rightarrow> string" where
  "JSON_stringify v space = serialize (replicate (min space 10) (CHR '' '')) [] v"

text \<open>
  The decimal text of a natural number, for the status code in a template string and for
  numbering object URLs.
\<close>

definition dec_digit :: "nat \<Rightarrow> char" where
  "dec_digit d = char_of (48 + d)"

function show_nat :: "nat \<Rightarrow> string" where
  "show_nat n = (if n < 10 then [dec_digit n] else show_nat (n div 10) @ [dec_digit (n mod 10)])"
  by pat_completeness auto
termination
  by (relation "measure id") auto

declare show_nat.simps [simp del]

text \<open>
  \<open>String.prototype.trim\<close> removes white space and line terminators from both ends.
  \<open>white_space\<close> lists their UTF-8 encodings: U+0009 to U+000D, U+0020, U+00A0, U+1680,
  U+2000 to U+200A, U+2028, U+2029, U+202F, U+205F, U+3000 and U+FEFF.
\<close>

definition white_space :: "string list" where
  "white_space =
     [[CHR 0x09], [CHR 0x0A], [CHR 0x0B], [CHR 0x0C], [CHR 0x0D], [CHR 0x20],
      [CHR 0xC2, CHR 0xA0],
      [CHR 0xE1, CHR 0x9A, CHR 0x80],
      [CHR 0xE2, CHR 0x80, CHR 0x80], [CHR 0xE2, CHR 0x80, CHR 0x81],
      [CHR 0xE2, CHR 0x80, CHR 0x82], [CHR 0xE2, CHR 0x80, CHR 0x83],
      [CHR 0xE2, CHR 0x80, CHR 0x84], [CHR 0xE2, CHR 0x80, CHR 0x85],
      [CHR 0xE2, CHR 0x80, CHR 0x86], [CHR 0xE2, CHR 0x80, CHR 0x87],
      [CHR 0xE2, CHR 0x80, CHR 0x88], [CHR 0xE2, CHR 0x80, CHR 0x89],
      [CHR 0xE2, CHR 0x80, CHR 0x8A],
      [CHR 0xE2, CHR 0x80, CHR 0xA8], [CHR 0xE2, CHR 0x80, CHR 0xA9],
      [CHR 0xE2, CHR 0x80, CHR 0xAF],
      [CHR 0xE2, CHR 0x81, CHR 0x9F],
      [CHR 0xE3, CHR 0x80, CHR 0x80],
      [CHR 0xEF, CHR 0xBB, CHR 0xBF]]"

fun strip_leading :: "string list \<Rightarrow> string \<Rightarrow> string" where
  "strip_leading ws [] = []"
| "strip_leading ws (a # s) =
     (if [a] \<in> set ws then strip_leading ws s
      else if take 2 (a # s) \<in> set ws then strip_leading ws (drop 1 s)
      else if take 3 (a # s) \<in> set ws then strip_leading ws (drop 2 s)
      else a # s)"

definition trimStart :: "string \<Rightarrow> string" where
  "trimStart s = strip_leading white_space s"

definition trimEnd :: "string \<Rightarrow> string" where
  "trimEnd s = rev (strip_leading (map rev white_space) (rev s))"

definition trim :: "string \<Rightarrow> string" where
  "trim s = trimEnd (trimStart s)"

text \<open>
  \<open>String.prototype.includes\<close>: the second text occurs somewhere in the first.
\<close>

definition str_includes :: "string \<Rightarrow> string \<Rightarrow> bool" where
  "str_includes s sub = list_ex (\<lambda>i. take (length sub) (drop i s) = sub) [0 ..< Suc (length s)]"

section \<open>Base64 and blobs\<close>

text \<open>
  \<open>base64ToBlob\<close> (agent.tsx, lines 52 to 58 and 298 to 304) rests on \<open>atob\<close> of
  the platform, modelled here after the forgiving-base64 decoder that defines it: white space
  is removed, up to two padding characters are removed when the length is a multiple of
  four, a length of one more than a multiple of four or a character outside the alphabet is
  an error, and the remaining characters give six bits each, with the four or two bits left
  over dropped. Both errors are an \<open>InvalidCharacterError\<close>; their messages are worded as
  Node words them, other platforms word them differently, and none of the claims below
  depends on the wording. The encoder is not part of this repository: \<open>base64_encode\<close> is the
  padded encoding of RFC 4648.
\<close>

type_synonym byte = "8 word"

definition b64_alphabet :: string where
  "b64_alphabet = ''ABCDEFGHIJKLMNOPQRSTUVWXYZabcdefghijklmnopqrstuvwxyz0123456789+/''"

definition b64_char :: "nat \<Rightarrow> char" where
  "b64_char n = b64_alphabet ! (n mod 64)"

fun index_of :: "'a \<Rightarrow> 'a list \<Rightarrow> nat option" where
  "index_of x [] = None"
| "index_of x (y # ys) = (if x = y then Some 0 else map_option Suc (index_of x ys))"

fun b64_groups :: "byte list \<Rightarrow> string" where
  "b64_groups (a # b # c # rest) =
     (let n = unat a * 65536 + unat b * 256 + unat c
      in [b64_char (n div 262144), b64_char (n div 4096 mod 64), b64_char (n div 64 mod 64),
          b64_char (n mod 64)] @ b64_groups rest)"
| "b64_groups [a, b] =
     (let n = unat a * 65536 + unat b * 256
      in [b64_char (n div 262144), b64_char (n div 4096 mod 64), b64_char (n div 64 mod 64)])"
| "b64_groups [a] =
     (let n = unat a * 65536
      in [b64_char (n div 262144), b64_char (n div 4096 mod 64)])"
| "b64_groups [] = []"

definition base64_encode :: "byte list \<Rightarrow> string" where
  "base64_encode bs = b64_groups bs @ replicate ((3 - length bs mod 3) mod 3) (CHR ''='')"

definition ascii_whitespace :: "char \<Rightarrow> bool" where
  "ascii_whitespace c = (c \<in> set [CHR 0x09, CHR 0x0A, CHR 0x0C, CHR 0x0D, CHR 0x20])"

definition strip_padding :: "string \<Rightarrow> string" where
  "strip_padding d =
     (if length d mod 4 = 0 then
        (case rev d of
           e1 # e2 # r \<Rightarrow>
             if e1 = CHR ''='' \<and> e2 = CHR ''='' then rev r
             else if e1 = CHR ''='' then rev (e2 # r) else d
         | [e1] \<Rightarrow> if e1 = CHR ''='' then [] else d
         | [] \<Rightarrow> d)
      else d)"

fun decode_sextets :: "nat list \<Rightarrow> nat list" where
  "decode_sextets (s0 # s1 # s2 # s3 # rest) =
     (let n = s0 * 262144 + s1 * 4096 + s2 * 64 + s3
      in [n div 65536, n div 256 mod 256, n mod 256] @ decode_sextets rest)"
| "decode_sextets [s0, s1, s2] =
     (let n = (s0 * 4096 + s1 * 64 + s2) div 4 in [n div 256, n mod 256])"
| "decode_sextets [s0, s1] = [(s0 * 64 + s1) div 16]"
| "decode_sextets _ = []"

fun sextets :: "string \<Rightarrow> nat list option" where
  "sextets [] = Some []"
| "sextets (c # cs) =
     (case index_of c b64_alphabet of
        None \<Rightarrow> None
      | Some i \<Rightarrow> map_option ((#) i) (sextets cs))"

definition atob :: "string \<Rightarrow> exn + nat list" where
  "atob s =
     (let d = strip_padding (filter (\<lambda>c. \<not> ascii_whitespace c) s)
      in case sextets d of
           None \<Rightarrow> Inl (DOMException ''InvalidCharacterError'' ''Invalid character'')
         | Some ss \<Rightarrow>
             if length d mod 4 = 1
             then Inl (DOMException ''InvalidCharacterError''
                        ''The string to be decoded is not correctly encoded.'')
             else Inr (decode_sextets ss))"


text \<open>
  \<open>String.prototype.split\<close> with a separator of one character.
\<close>

fun split_on :: "char \<Rightarrow> string \<Rightarrow> string list" where
  "split_on sep [] = [[]]"
| "split_on sep (c # cs) =
     (if c = sep then [] # split_on sep cs
      else case split_on sep cs of
             p # ps \<Rightarrow> (c # p) # ps
           | [] \<Rightarrow> [[c]])"

text \<open>
  A blob is its bytes and its type. The constructor keeps a type made of printable ASCII
  characters in lower case and replaces any other type by the empty text.
\<close>

record blob =
  blob_bytes :: "byte list"
  blob_type :: string

definition ascii_lower :: "char \<Rightarrow> char" where
  "ascii_lower c =
     (let n = (of_char c :: nat) in if 65 \<le> n \<and> n \<le> 90 then char_of (n + 32) else c)"

definition new_Blob :: "byte list \<Rightarrow> string \<Rightarrow> blob" where
  "new_Blob bs t =
     \<lparr>blob_bytes = bs,
      blob_type = (if list_all (\<lambda>c. 0x20 \<le> (of_char c :: nat) \<and> (of_char c :: nat) \<le> 0x7E) t then map ascii_lower t else [])\<rparr>"

text \<open>
  \<open>base64ToBlob\<close>: the part after the first comma when there is a comma, decoded by
  \<open>atob\<close>, each character code stored as a byte. The second argument is optional in
  the source, with a default type. An index out of range would give \<open>undefined\<close>,
  which \<open>atob\<close> reads as the text \<open>undefined\<close>; a text with a comma always splits
  into two parts at least.
\<close>

definition base64ToBlob :: "string \<Rightarrow> string option \<Rightarrow> exn + blob" where
  "base64ToBlob base64 mime_arg =
     (let mime = (case mime_arg of None \<Rightarrow> ''application/octet-stream'' | Some m \<Rightarrow> m);
          dataPart =
            (if CHR '','' \<in> set base64
             then (case drop 1 (split_on (CHR '','') base64) of
                     p # _ \<Rightarrow> p
                   | [] \<Rightarrow> ''undefined'')
             else base64)
      in case atob dataPart of
           Inl e \<Rightarrow> Inl e
         | Inr binary \<Rightarrow> Inr (new_Blob (map of_nat binary) mime))"


section \<open>The platform around the components\<close>

text \<open>
  What a component does to the world is logged in its state: the toasts it shows, the
  requests it issues, the object URLs it creates and revokes, the streams whose tracks are
  live and the number of times it asks for the microphone.
\<close>

datatype toast =
    Toast_error string
  | Toast_success string
  | Toast_warning string
  | Toast_message string

datatype req_body =
    JsonBody string
  | FormBody "(string \<times> blob \<times> string) list"

record request =
  url :: string
  http_method :: string
  headers :: "(string \<times> string) list"
  body :: req_body

text \<open>
  A reply is what the component can read of it. Parsing the body is left to the platform:
  \<open>json_body\<close> is what \<open>res.json()\<close> resolves to, or the \<open>SyntaxError\<close> it
  rejects with, and \<open>text_body\<close> is what \<open>res.text()\<close> resolves to. \<open>ok\<close> is
  true for the status codes 200 to 299. A fetch either rejects or resolves with a reply.
\<close>

record response =
  status :: nat
  statusText :: string
  contentType :: "string option"
  text_body :: string
  json_body :: "exn + json"

definition ok :: "response \<Rightarrow> bool" where
  "ok res = (200 \<le> status res \<and> status res \<le> 299)"

datatype fetch_outcome = Rejected exn | Resolved response

text \<open>
  The platform as \<open>startRecording\<close> meets it: whether the context is secure, the host
  name, whether \<open>navigator.mediaDevices.getUserMedia\<close> and \<open>navigator.permissions\<close>
  exist, what the permission query and the device request answer, and the container types
  the recorder supports.
\<close>

datatype PermissionState = Granted | Denied | Prompt

datatype mic_permission = Known PermissionState | Unsupported

record platform =
  isSecureContext :: bool
  hostname :: string
  has_getUserMedia :: bool
  has_permissions :: bool
  permissions_query :: "exn + PermissionState"
  getUserMedia :: "exn + unit"
  supported_types :: "string list"

definition BACKEND_URL :: string where
  "BACKEND_URL = ''http://127.0.0.1:8080/assistant''"

definition isSecureContextOrLocal :: "platform \<Rightarrow> bool" where
  "isSecureContextOrLocal p = (isSecureContext p \<or> hostname p \<in> set [''localhost'', ''127.0.0.1''])"

definition queryMicPermission :: "platform \<Rightarrow> mic_permission" where
  "queryMicPermission p =
     (if \<not> has_permissions p then Unsupported
      else case permissions_query p of
             Inl e \<Rightarrow> Unsupported
           | Inr s \<Rightarrow> Known s)"

text \<open>
  \<open>err.message || fallback\<close> of the catch blocks. The messages of errors raised by
  the platform are worded as V8 words them; other engines word them differently, and none
  of the claims below depends on the wording.
\<close>

definition catch_message :: "exn \<Rightarrow> string \<Rightarrow> string" where
  "catch_message err fallback = (if message err = [] then fallback else message err)"

definition null_access :: "string \<Rightarrow> exn" where
  "null_access k =
     TypeError (''Cannot read properties of null (reading '' @ [CHR 0x27] @ k @ [CHR 0x27] @ '')'')"

definition not_callable :: exn where
  "not_callable = TypeError ''base64.includes is not a function''"

definition ellipsis :: string where
  "ellipsis = [CHR 0xE2, CHR 0x80, CHR 0xA6]"

text \<open>
  \<open>handleBackendJson\<close> passes whatever truthy value the field \<open>audio_b64\<close> holds.
  A string is decoded; an array answers \<open>includes\<close> itself and then has no
  \<open>split\<close> or is converted by \<open>atob\<close>; any other value has no \<open>includes\<close>.
\<close>

definition base64ToBlob_any :: "json \<Rightarrow> string option \<Rightarrow> exn + blob" where
  "base64ToBlob_any v mime_arg =
     (case v of
        JStr s \<Rightarrow> base64ToBlob s mime_arg
      | JArr xs \<Rightarrow>
          if JStr '','' \<in> set xs then Inl (TypeError ''base64.split is not a function'')
          else (case atob (to_str (JArr xs)) of
                  Inl e \<Rightarrow> Inl e
                | Inr binary \<Rightarrow>
                    Inr (new_Blob (map of_nat binary)
                          (case mime_arg of None \<Rightarrow> ''application/octet-stream'' | Some m \<Rightarrow> m)))
      | _ \<Rightarrow> Inl not_callable)"

section \<open>The voice and text component\<close>

text \<open>
  The later version of the component (agent.tsx, from line 245). The state cell
  \<open>markdown\<close> is declared a string but is assigned the field \<open>text\<close> of an untyped
  reply, so it holds a JSON value. An object URL is the text \<open>blob:\<close> followed by a
  number that has not been used before.
\<close>

datatype Mode = Voice | Text

record recorder =
  rec_stream :: nat
  rec_mimeType :: string
  rec_recording :: bool

record agent =
  mode :: Mode
  markdown :: json
  audioUrl :: string
  isLoading :: bool
  isRecording :: bool
  textQuery :: string
  mediaRecorderRef :: "recorder option"
  chunksRef :: "blob list"
  toasts :: "toast list"
  requests :: "request list"
  objectUrls :: "(string \<times> blob) list"
  urlCounter :: nat
  liveStreams :: "nat list"
  streamCounter :: nat
  micRequests :: nat

definition toast_error :: "string \<Rightarrow> agent \<Rightarrow> agent" where
  "toast_error m st = st\<lparr>toasts := toasts st @ [Toast_error m]\<rparr>"

definition createObjectURL :: "blob \<Rightarrow> agent \<Rightarrow> string \<times> agent" where
  "createObjectURL b st =
     (let u = ''blob:'' @ show_nat (urlCounter st)
      in (u, st\<lparr>objectUrls := objectUrls st @ [(u, b)], urlCounter := urlCounter st + 1\<rparr>))"

definition revokeObjectURL :: "string \<Rightarrow> agent \<Rightarrow> agent" where
  "revokeObjectURL u st = st\<lparr>objectUrls := filter (\<lambda>e. fst e \<noteq> u) (objectUrls st)\<rparr>"

definition stop_tracks :: "nat \<Rightarrow> agent \<Rightarrow> agent" where
  "stop_tracks sid st = st\<lparr>liveStreams := removeAll sid (liveStreams st)\<rparr>"

definition on_mount :: "platform \<Rightarrow> agent \<Rightarrow> agent" where
  "on_mount p st =
     (if \<not> isSecureContextOrLocal p
      then st\<lparr>toasts := toasts st @ [Toast_warning ''Microphone requires HTTPS or localhost.'']\<rparr>
      else st)"

definition ondataavailable :: "blob \<Rightarrow> agent \<Rightarrow> agent" where
  "ondataavailable d st =
     (if length (blob_bytes d) \<noteq> 0 then st\<lparr>chunksRef := chunksRef st @ [d]\<rparr> else st)"

text \<open>
  \<open>handleBackendJson\<close> (lines 371 to 381). It can throw after it has set the markdown,
  so it returns the state it reached together with the exception, if any.
\<close>

definition handleBackendJson :: "json \<Rightarrow> agent \<Rightarrow> agent \<times> exn option" where
  "handleBackendJson data st =
     (if data = JNull then (st, Some (null_access ''text''))
      else
        let st1 = (case get_prop data ''text'' of
                     None \<Rightarrow> st
                   | Some t \<Rightarrow> if truthy t then st\<lparr>markdown := t\<rparr> else st)
        in case get_prop data ''audio_b64'' of
             None \<Rightarrow> (st1, None)
           | Some a \<Rightarrow>
               if \<not> truthy a then (st1, None)
               else
                 let mime = or_else (get_prop data ''mime'') (JStr ''audio/mpeg'')
                 in case base64ToBlob_any a (Some (to_str mime)) of
                      Inl e \<Rightarrow> (st1, Some e)
                    | Inr b \<Rightarrow>
                        let st2 = (if audioUrl st1 \<noteq> [] then revokeObjectURL (audioUrl st1) st1 else st1);
                            (u, st3) = createObjectURL b st2
                        in (st3\<lparr>audioUrl := u\<rparr>, None))"

text \<open>
  The body of the \<open>try\<close> block from the answer of the fetch onwards (lines 390 to 393
  and 409 to 416, the same statements in \<open>sendAudio\<close> and \<open>sendText\<close>), and then
  the \<open>catch\<close> and \<open>finally\<close> blocks around it.
\<close>

definition settle :: "fetch_outcome \<Rightarrow> agent \<Rightarrow> agent \<times> exn option" where
  "settle out st =
     (case out of
        Rejected e \<Rightarrow> (st, Some e)
      | Resolved res \<Rightarrow>
          (case json_body res of
             Inl e \<Rightarrow> (st, Some e)
           | Inr data \<Rightarrow>
               if \<not> ok res
               then (st, Some (Error (to_str (or_else (get_prop data ''error'')
                                                 (JStr (statusText res))))))
               else handleBackendJson data st))"

definition await_backend :: "fetch_outcome \<Rightarrow> agent \<Rightarrow> agent" where
  "await_backend out st =
     (let (st1, thrown) = settle out st;
          st2 = (case thrown of
                   None \<Rightarrow> st1
                 | Some err \<Rightarrow> toast_error (catch_message err ''Request failed'') st1)
      in st2\<lparr>isLoading := False\<rparr>)"

text \<open>
  \<open>sendAudio\<close> (lines 383 to 399) and \<open>sendText\<close> (lines 401 to 422). Each is
  split where it awaits the fetch: the first part runs up to the call of \<open>fetch\<close>, the
  second part is \<open>await_backend\<close> with the outcome of the fetch.
\<close>

definition sendAudio_begin :: "blob \<Rightarrow> agent \<Rightarrow> agent" where
  "sendAudio_begin b st =
     st\<lparr>isLoading := True, audioUrl := [],
        requests := requests st @
          [\<lparr>url = BACKEND_URL, http_method = ''POST'', headers = [],
            body = FormBody [(''audio'', b, ''recording.webm'')]\<rparr>]\<rparr>"

definition sendAudio :: "blob \<Rightarrow> fetch_outcome \<Rightarrow> agent \<Rightarrow> agent" where
  "sendAudio b out st = await_backend out (sendAudio_begin b st)"

definition sendText_begin :: "agent \<Rightarrow> agent" where
  "sendText_begin st =
     st\<lparr>isLoading := True, audioUrl := [],
        requests := requests st @
          [\<lparr>url = BACKEND_URL, http_method = ''POST'',
            headers = [(''Content-Type'', ''application/json'')],
            body = JsonBody (JSON_stringify (JObj [(''query'', JStr (textQuery st))]) 0)\<rparr>]\<rparr>"

definition sendText :: "fetch_outcome \<Rightarrow> agent \<Rightarrow> agent" where
  "sendText out st =
     (if trim (textQuery st) = [] then toast_error ''Please enter a request.'' st
      else await_backend out (sendText_begin st))"

text \<open>
  The handlers that \<open>startRecording\<close> installs on the recorder (lines 347 to 355) and
  \<open>startRecording\<close> itself (lines 327 to 363). \<open>onstop\<close> calls \<open>sendAudio\<close>
  without awaiting it, so only the first part of \<open>sendAudio\<close> runs inside the handler.
\<close>

definition onstop :: "recorder \<Rightarrow> agent \<Rightarrow> agent" where
  "onstop r st =
     (let b = new_Blob (concat (map blob_bytes (chunksRef st))) (rec_mimeType r)
      in if length (blob_bytes b) = 0 then toast_error ''Empty recording, try again.'' st
         else stop_tracks (rec_stream r) (sendAudio_begin b st))"

definition startRecording :: "platform \<Rightarrow> agent \<Rightarrow> agent" where
  "startRecording p st =
     (if \<not> has_getUserMedia p then toast_error ''getUserMedia not supported in this browser.'' st
      else if queryMicPermission p = Known Denied then toast_error ''Microphone permission denied.'' st
      else
        let st0 = st\<lparr>micRequests := micRequests st + 1\<rparr>
        in case getUserMedia p of
             Inl err \<Rightarrow> toast_error (catch_message err ''Cannot start recording.'') st0
           | Inr granted \<Rightarrow>
               let sid = streamCounter st0;
                   st1 = st0\<lparr>liveStreams := liveStreams st0 @ [sid], streamCounter := sid + 1\<rparr>;
                   mimeType = (if ''audio/webm;codecs=opus'' \<in> set (supported_types p)
                               then ''audio/webm;codecs=opus'' else ''audio/webm'')
               in if mimeType \<notin> set (supported_types p)
                  then toast_error
                         (catch_message (DOMException ''NotSupportedError'' ''mimeType is not supported'')
                            ''Cannot start recording.'') st1
                  else st1\<lparr>mediaRecorderRef :=
                              Some \<lparr>rec_stream = sid, rec_mimeType = mimeType, rec_recording = True\<rparr>,
                            chunksRef := [], isRecording := True,
                            toasts := toasts st1 @ [Toast_message (''Recording'' @ ellipsis)]\<rparr>)"

text \<open>
  \<open>stopRecording\<close> (lines 365 to 368) together with the two events the platform fires
  when a recorder that is recording is stopped: the data gathered since the last chunk, then
  the stop event. Stopping a recorder that is not recording fires nothing.
\<close>

definition stopRecording :: "blob \<Rightarrow> agent \<Rightarrow> agent" where
  "stopRecording last_data st =
     (case mediaRecorderRef st of
        None \<Rightarrow> st\<lparr>isRecording := False\<rparr>
      | Some r \<Rightarrow>
          if \<not> rec_recording r then st\<lparr>isRecording := False\<rparr>
          else onstop r (ondataavailable last_data
                 (st\<lparr>mediaRecorderRef := Some (r\<lparr>rec_recording := False\<rparr>), isRecording := False\<rparr>)))"

text \<open>
  The state of the component when it is mounted.
\<close>

definition initial :: agent where
  "initial =
     \<lparr>mode = Voice, markdown = JStr [], audioUrl = [], isLoading = False, isRecording = False,
      textQuery = [], mediaRecorderRef = None, chunksRef = [], toasts = [], requests = [],
      objectUrls = [], urlCounter = 0, liveStreams = [], streamCounter = 0, micRequests = 0\<rparr>"
section \<open>The earlier, voice-only component\<close>

text \<open>
  The earlier version of the component (agent.tsx, lines 1 to 243). It has no text mode, so
  the cells \<open>mode\<close> and \<open>textQuery\<close> of the state are never touched. It differs from
  the later version in the guard on the context at the start of \<open>startRecording\<close>
  (line 80), in revoking the earlier object URL before the request (line 116), in handling
  the reply inline with a toast on success (lines 127 to 133), and in the texts of its
  toasts.
\<close>

definition on_mount_v1 :: "platform \<Rightarrow> agent \<Rightarrow> agent" where
  "on_mount_v1 p st =
     (if \<not> isSecureContextOrLocal p
      then st\<lparr>toasts := toasts st @ [Toast_warning ''Microphone access requires HTTPS or localhost.'']\<rparr>
      else st)"

definition sendAudio_begin_v1 :: "blob \<Rightarrow> agent \<Rightarrow> agent" where
  "sendAudio_begin_v1 b st =
     (let st1 = st\<lparr>isLoading := True\<rparr>;
          st2 = (if audioUrl st1 \<noteq> [] then revokeObjectURL (audioUrl st1) st1 else st1)
      in st2\<lparr>audioUrl := [],
             requests := requests st2 @
               [\<lparr>url = BACKEND_URL, http_method = ''POST'', headers = [],
                 body = FormBody [(''audio'', b, ''recording.webm'')]\<rparr>]\<rparr>)"

definition settle_v1 :: "fetch_outcome \<Rightarrow> agent \<Rightarrow> agent \<times> exn option" where
  "settle_v1 out st =
     (case out of
        Rejected e \<Rightarrow> (st, Some e)
      | Resolved res \<Rightarrow>
          (case json_body res of
             Inl e \<Rightarrow> (st, Some e)
           | Inr data \<Rightarrow>
               if \<not> ok res
               then (st, Some (Error (to_str (or_else (get_prop data ''error'')
                                                 (JStr (statusText res))))))
               else if data = JNull then (st, Some (null_access ''text''))
               else
                 let st1 = (case get_prop data ''text'' of
                              None \<Rightarrow> st
                            | Some t \<Rightarrow> if truthy t then st\<lparr>markdown := t\<rparr> else st);
                     ready = (\<lambda>s. s\<lparr>toasts := toasts s @ [Toast_success ''Response ready'']\<rparr>)
                 in case get_prop data ''audio_b64'' of
                      None \<Rightarrow> (ready st1, None)
                    | Some a \<Rightarrow>
                        if \<not> truthy a then (ready st1, None)
                        else
                          let mime = or_else (get_prop data ''mime'') (JStr ''audio/mpeg'')
                          in case base64ToBlob_any a (Some (to_str mime)) of
                               Inl e \<Rightarrow> (st1, Some e)
                             | Inr b \<Rightarrow>
                                 let (u, st2) = createObjectURL b st1
                                 in (ready (st2\<lparr>audioUrl := u\<rparr>), None)))"

definition await_backend_v1 :: "fetch_outcome \<Rightarrow> agent \<Rightarrow> agent" where
  "await_backend_v1 out st =
     (let (st1, thrown) = settle_v1 out st;
          st2 = (case thrown of
                   None \<Rightarrow> st1
                 | Some err \<Rightarrow> toast_error (catch_message err ''Request failed'') st1)
      in st2\<lparr>isLoading := False\<rparr>)"

definition sendAudio_v1 :: "blob \<Rightarrow> fetch_outcome \<Rightarrow> agent \<Rightarrow> agent" where
  "sendAudio_v1 b out st = await_backend_v1 out (sendAudio_begin_v1 b st)"

definition onstop_v1 :: "recorder \<Rightarrow> agent \<Rightarrow> agent" where
  "onstop_v1 r st =
     (let b = new_Blob (concat (map blob_bytes (chunksRef st))) (rec_mimeType r)
      in if length (blob_bytes b) = 0 then toast_error ''Recording empty.'' st
         else stop_tracks (rec_stream r) (sendAudio_begin_v1 b st))"

definition startRecording_v1 :: "platform \<Rightarrow> agent \<Rightarrow> agent" where
  "startRecording_v1 p st =
     (if \<not> isSecureContextOrLocal p then toast_error ''Insecure context.'' st
      else if \<not> has_getUserMedia p then toast_error ''getUserMedia not supported.'' st
      else if queryMicPermission p = Known Denied then toast_error ''Mic permission denied.'' st
      else
        let st0 = st\<lparr>micRequests := micRequests st + 1\<rparr>
        in case getUserMedia p of
             Inl err \<Rightarrow> toast_error (catch_message err ''Recording failed.'') st0
           | Inr granted \<Rightarrow>
               let sid = streamCounter st0;
                   st1 = st0\<lparr>liveStreams := liveStreams st0 @ [sid], streamCounter := sid + 1\<rparr>;
                   mimeType = (if ''audio/webm;codecs=opus'' \<in> set (supported_types p)
                               then ''audio/webm;codecs=opus'' else ''audio/webm'')
               in if mimeType \<notin> set (supported_types p)
                  then toast_error
                         (catch_message (DOMException ''NotSupportedError'' ''mimeType is not supported'')
                            ''Recording failed.'') st1
                  else st1\<lparr>mediaRecorderRef :=
                              Some \<lparr>rec_stream = sid, rec_mimeType = mimeType, rec_recording = True\<rparr>,
                            chunksRef := [], isRecording := True,
                            toasts := toasts st1 @ [Toast_success (''Recording'' @ ellipsis)]\<rparr>)"

definition stopRecording_v1 :: "blob \<Rightarrow> agent \<Rightarrow> agent" where
  "stopRecording_v1 last_data st =
     (case mediaRecorderRef st of
        None \<Rightarrow> st\<lparr>isRecording := False\<rparr>
      | Some r \<Rightarrow>
          if \<not> rec_recording r then st\<lparr>isRecording := False\<rparr>
          else onstop_v1 r (ondataavailable last_data
                 (st\<lparr>mediaRecorderRef := Some (r\<lparr>rec_recording := False\<rparr>), isRecording := False\<rparr>)))"
section \<open>The text-only component\<close>

text \<open>
  The component of only-for-test.tsx: \<open>fetchEvents\<close> (lines 34 to 69) and
  \<open>handleSubmit\<close> (lines 71 to 75). Its state cells carry a prime where the name is
  already a cell of the voice component.
\<close>

record improved =
  input :: string
  markdown' :: json
  isLoading' :: bool
  toasts' :: "toast list"
  requests' :: "request list"
  console' :: "exn list"

text \<open>
  Lines 53 and 54: the first of the three fields that is neither missing nor \<open>null\<close>,
  or the dump of the whole reply with an indent of two.
\<close>

definition resolve_text :: "json \<Rightarrow> exn + json" where
  "resolve_text data =
     (if data = JNull then Inl (null_access ''result'')
      else Inr (nullish (get_prop data ''result'')
                 (nullish (get_prop data ''output'')
                   (nullish (get_prop data ''message'')
                     (JStr (JSON_stringify data 2))))))"

definition fetchEvents_begin :: "improved \<Rightarrow> improved" where
  "fetchEvents_begin st =
     st\<lparr>isLoading' := True, markdown' := JStr [],
        requests' := requests' st @
          [\<lparr>url = ''http://127.0.0.1:8080/assistant'', http_method = ''POST'',
            headers = [(''Content-Type'', ''application/json'')],
            body = JsonBody (JSON_stringify (JObj [(''query'', JStr (input st))]) 0)\<rparr>]\<rparr>"

definition fetchEvents_settle :: "fetch_outcome \<Rightarrow> improved \<Rightarrow> improved \<times> exn option" where
  "fetchEvents_settle out st =
     (case out of
        Rejected e \<Rightarrow> (st, Some e)
      | Resolved res \<Rightarrow>
          let ct = (case contentType res of None \<Rightarrow> [] | Some c \<Rightarrow> c)
          in case (if str_includes ct ''application/json''
                   then (case json_body res of Inl e \<Rightarrow> Inl e | Inr data \<Rightarrow> resolve_text data)
                   else Inr (JStr (text_body res))) of
               Inl e \<Rightarrow> (st, Some e)
             | Inr text \<Rightarrow>
                 if \<not> ok res
                 then (st, Some (Error (to_str (if truthy text then text
                                                else JStr (''HTTP '' @ show_nat (status res))))))
                 else (st\<lparr>markdown' := text,
                          toasts' := toasts' st @ [Toast_success ''Calendar events retrieved successfully'']\<rparr>,
                       None))"

definition fetchEvents :: "fetch_outcome \<Rightarrow> improved \<Rightarrow> improved" where
  "fetchEvents out st =
     (let (st1, thrown) = fetchEvents_settle out (fetchEvents_begin st);
          st2 = (case thrown of
                   None \<Rightarrow> st1
                 | Some err \<Rightarrow>
                     st1\<lparr>console' := console' st1 @ [err],
                         toasts' := toasts' st1 @ [Toast_error (catch_message err ''Failed to fetch events'')]\<rparr>)
      in st2\<lparr>isLoading' := False\<rparr>)"

definition handleSubmit :: "fetch_outcome \<Rightarrow> improved \<Rightarrow> improved" where
  "handleSubmit out st =
     (if trim (input st) = []
      then st\<lparr>toasts' := toasts' st @ [Toast_error ''Please enter a request'']\<rparr>
      else fetchEvents out st)"

definition initial_improved :: improved where
  "initial_improved =
     \<lparr>input = ''Get my Google Calendar events for the next week'', markdown' = JStr [],
      isLoading' = False, toasts' = [], requests' = [], console' = []\<rparr>"

section \<open>Replies used in the examples\<close>

definition json_response :: "nat \<Rightarrow> string \<Rightarrow> json \<Rightarrow> response" where
  "json_response code reason data =
     \<lparr>status = code, statusText = reason, contentType = Some ''application/json'',
      text_body = JSON_stringify data 0, json_body = Inr data\<rparr>"

definition local_platform :: platform where
  "local_platform =
     \<lparr>isSecureContext = True, hostname = ''localhost'', has_getUserMedia = True,
      has_permissions = True, permissions_query = Inr Prompt, getUserMedia = Inr (),
      supported_types = [''audio/webm;codecs=opus'', ''audio/webm'']\<rparr>"

definition insecure_platform :: platform where
  "insecure_platform = local_platform\<lparr>isSecureContext := False, hostname := ''example.com''\<rparr>"
section \<open>Base64: decoding undoes encoding\<close>

lemma replicate_two: "replicate 2 x = [x, x]"
  by (simp add: numeral_2_eq_2)

lemma b64_alphabet_distinct: "distinct b64_alphabet"
  by (simp add: b64_alphabet_def)

lemma b64_alphabet_length: "length b64_alphabet = 64"
  by (simp add: b64_alphabet_def)

lemma index_of_nth: "distinct xs \<Longrightarrow> n < length xs \<Longrightarrow> index_of (xs ! n) xs = Some n"
proof (induction xs arbitrary: n)
  case Nil
  then show ?case by simp
next
  case (Cons y ys)
  show ?case
  proof (cases n)
    case 0
    then show ?thesis by simp
  next
    case (Suc m)
    with Cons.prems have "ys ! m \<noteq> y" "m < length ys" "distinct ys" by auto
    with Cons.IH [of m] Suc show ?thesis by simp
  qed
qed

lemma index_of_b64_char: "index_of (b64_char n) b64_alphabet = Some (n mod 64)"
  unfolding b64_char_def
  by (rule index_of_nth) (simp_all add: b64_alphabet_distinct b64_alphabet_length)

lemma b64_char_in_alphabet: "b64_char n \<in> set b64_alphabet"
  unfolding b64_char_def by (rule nth_mem) (simp add: b64_alphabet_length)

lemma alphabet_plain:
  "c \<in> set b64_alphabet \<Longrightarrow> c \<noteq> CHR ''='' \<and> c \<noteq> CHR '','' \<and> \<not> ascii_whitespace c"
  by (auto simp: b64_alphabet_def ascii_whitespace_def)

lemma b64_groups_alphabet: "set (b64_groups bs) \<subseteq> set b64_alphabet"
  by (induction bs rule: b64_groups.induct) (simp_all add: Let_def b64_char_in_alphabet)

lemma b64_groups_length:
  "length (b64_groups bs) = 4 * (length bs div 3) + [0, 2, 3] ! (length bs mod 3)"
proof (induction bs rule: b64_groups.induct)
  case (1 a b c rest)
  have "(3 + length rest) div 3 = Suc (length rest div 3)" by simp
  moreover have "(3 + length rest) mod 3 = length rest mod 3" by simp
  ultimately show ?case using 1 by (simp add: Let_def)
qed (simp_all add: Let_def)

lemma sextets_Cons_char:
  "sextets (b64_char n # cs) = map_option ((#) (n mod 64)) (sextets cs)"
  by (simp add: index_of_b64_char)

lemma sextet_split:
  fixes n :: nat
  shows "n div 262144 * 262144 + (n div 4096 mod 64) * 4096 + (n div 64 mod 64) * 64 + n mod 64 = n"
proof -
  have a: "n div 4096 = n div 64 div 64" by (simp add: div_mult2_eq)
  have b: "n div 262144 = n div 4096 div 64" by (simp add: div_mult2_eq)
  have 1: "n = n div 64 * 64 + n mod 64" by simp
  have 2: "n div 64 = n div 4096 * 64 + n div 64 mod 64" unfolding a by simp
  have 3: "n div 4096 = n div 262144 * 64 + n div 4096 mod 64" unfolding b by simp
  show ?thesis using 1 2 3 by linarith
qed


lemma group3_bytes:
  fixes a b c :: nat
  assumes "a < 256" "b < 256" "c < 256"
  shows "(a * 65536 + b * 256 + c) div 65536 = a"
    and "(a * 65536 + b * 256 + c) div 256 mod 256 = b"
    and "(a * 65536 + b * 256 + c) mod 256 = c"
proof -
  show "(a * 65536 + b * 256 + c) div 65536 = a"
    using assms by (intro div_nat_eqI) simp_all
  have "(a * 65536 + b * 256 + c) div 256 = a * 256 + b"
    using assms by (intro div_nat_eqI) simp_all
  then show "(a * 65536 + b * 256 + c) div 256 mod 256 = b"
    using assms by simp
  have "a * 65536 + b * 256 + c = (a * 256 + b) * 256 + c" by simp
  then show "(a * 65536 + b * 256 + c) mod 256 = c"
    using assms by (metis mod_mult_self3 mod_less)
qed

lemma group2_bytes:
  fixes a b :: nat
  assumes "a < 256" "b < 256"
  defines "n \<equiv> a * 65536 + b * 256"
  shows "(n div 262144 * 4096 + (n div 4096 mod 64) * 64 + n div 64 mod 64) div 4 = a * 256 + b"
proof -
  have "n mod 64 = 0" unfolding n_def by presburger
  with sextet_split [of n]
  have "(n div 262144 * 4096 + (n div 4096 mod 64) * 64 + n div 64 mod 64) * 64 = n"
    by simp
  moreover have "n = (a * 256 + b) * 4 * 64" unfolding n_def by simp
  ultimately have "n div 262144 * 4096 + (n div 4096 mod 64) * 64 + n div 64 mod 64 = (a * 256 + b) * 4"
    by simp
  then show ?thesis by simp
qed

lemma group1_bytes:
  fixes a :: nat
  assumes "a < 256"
  defines "n \<equiv> a * 65536"
  shows "(n div 262144 * 64 + n div 4096 mod 64) div 16 = a"
proof -
  have "n div 4096 = a * 16" unfolding n_def by simp
  moreover have "n div 262144 = n div 4096 div 64" by (simp add: div_mult2_eq)
  ultimately have "n div 262144 * 64 + n div 4096 mod 64 = a * 16"
    by (metis div_mult_mod_eq)
  then show ?thesis by simp
qed


lemma byte_bound: "unat (a :: byte) < 256"
  using unsigned_less [of a, where ?'a = nat] by simp

lemma decode_group3:
  fixes a b c :: nat
  assumes "a < 256" "b < 256" "c < 256"
  defines "n \<equiv> a * 65536 + b * 256 + c"
  shows "decode_sextets ((n div 262144) mod 64 # (n div 4096 mod 64) mod 64
           # (n div 64 mod 64) mod 64 # (n mod 64) mod 64 # ss) = [a, b, c] @ decode_sextets ss"
proof -
  have "n < 64 * 262144" using assms by simp
  then have "n div 262144 < 64" by (simp add: less_mult_imp_div_less)
  then have s0: "(n div 262144) mod 64 = n div 262144" by simp
  have n: "n div 262144 * 262144 + (n div 4096 mod 64) * 4096 + (n div 64 mod 64) * 64 + n mod 64 = n"
    by (rule sextet_split)
  show ?thesis
    using group3_bytes [OF assms(1-3)]
    by (simp only: decode_sextets.simps Let_def s0 mod_mod_trivial n) (simp add: n_def)
qed

lemma decode_group2:
  fixes a b :: nat
  assumes "a < 256" "b < 256"
  defines "n \<equiv> a * 65536 + b * 256"
  shows "decode_sextets [(n div 262144) mod 64, (n div 4096 mod 64) mod 64, (n div 64 mod 64) mod 64]
           = [a, b]"
proof -
  have "n < 64 * 262144" using assms by simp
  then have "n div 262144 < 64" by (simp add: less_mult_imp_div_less)
  then have s0: "(n div 262144) mod 64 = n div 262144" by simp
  have m: "(n div 262144 * 4096 + (n div 4096 mod 64) * 64 + n div 64 mod 64) div 4 = a * 256 + b"
    unfolding n_def by (rule group2_bytes [OF assms(1,2)])
  show ?thesis
    using assms(2) by (simp only: decode_sextets.simps Let_def s0 mod_mod_trivial m) simp
qed

lemma decode_group1:
  fixes a :: nat
  assumes "a < 256"
  defines "n \<equiv> a * 65536"
  shows "decode_sextets [(n div 262144) mod 64, (n div 4096 mod 64) mod 64] = [a]"
proof -
  have "n < 64 * 262144" using assms by simp
  then have "n div 262144 < 64" by (simp add: less_mult_imp_div_less)
  then have s0: "(n div 262144) mod 64 = n div 262144" by simp
  have m: "(n div 262144 * 64 + n div 4096 mod 64) div 16 = a"
    unfolding n_def by (rule group1_bytes [OF assms(1)])
  show ?thesis
    by (simp only: decode_sextets.simps s0 mod_mod_trivial m)
qed

lemma decode_b64_groups:
  "\<exists>ss. sextets (b64_groups bs) = Some ss \<and> decode_sextets ss = map unat bs"
proof (induction bs rule: b64_groups.induct)
  case (1 a b c rest)
  then obtain ss where ss: "sextets (b64_groups rest) = Some ss" "decode_sextets ss = map unat rest"
    by blast
  show ?case
    using decode_group3 [OF byte_bound [of a] byte_bound [of b] byte_bound [of c], of ss] ss
    by (simp add: Let_def sextets_Cons_char del: decode_sextets.simps sextets.simps(2))
next
  case (2 a b)
  show ?case
    using decode_group2 [OF byte_bound [of a] byte_bound [of b]]
    by (simp add: Let_def sextets_Cons_char del: decode_sextets.simps sextets.simps(2))
next
  case (3 a)
  show ?case
    using decode_group1 [OF byte_bound [of a]]
    by (simp add: Let_def sextets_Cons_char del: decode_sextets.simps sextets.simps(2))
next
  case 4
  show ?case by simp
qed


lemma strip_padding_plain:
  assumes "CHR ''='' \<notin> set d"
  shows "strip_padding d = d"
proof (cases "rev d")
  case Nil
  then show ?thesis by (simp add: strip_padding_def)
next
  case (Cons e1 r)
  then have "e1 \<in> set d" by (metis list.set_intros(1) set_rev)
  with assms have "e1 \<noteq> CHR ''=''" by auto
  with Cons show ?thesis by (cases r) (simp_all add: strip_padding_def)
qed

lemma strip_padding_two:
  assumes "length g mod 4 = 2"
  shows "strip_padding (g @ ''=='') = g"
proof -
  have "(length g + 2) mod 4 = 0" using assms by presburger
  then show ?thesis by (simp add: strip_padding_def)
qed

lemma strip_padding_one:
  assumes "length g mod 4 = 3" and "CHR ''='' \<notin> set g"
  shows "strip_padding (g @ ''='') = g"
proof -
  have len: "(length g + 1) mod 4 = 0" using assms(1) by presburger
  from assms(1) have "g \<noteq> []" by auto
  then obtain xs e2 where g: "g = xs @ [e2]" by (cases g rule: rev_cases) auto
  with assms(2) have "e2 \<noteq> CHR ''=''" by auto
  then show ?thesis using len by (simp add: strip_padding_def g)
qed

lemma b64_groups_plain:
  "CHR ''='' \<notin> set (b64_groups bs)" "CHR '','' \<notin> set (b64_groups bs)"
  "\<forall>c \<in> set (b64_groups bs). \<not> ascii_whitespace c"
  using b64_groups_alphabet [of bs] alphabet_plain by blast+

lemma base64_encode_plain:
  "CHR '','' \<notin> set (base64_encode bs)"
  "filter (\<lambda>c. \<not> ascii_whitespace c) (base64_encode bs) = base64_encode bs"
  using b64_groups_plain [of bs]
  by (auto simp: base64_encode_def ascii_whitespace_def)

lemma b64_groups_length_mod4:
  "length (b64_groups bs) mod 4 = [0, 2, 3] ! (length bs mod 3)"
proof -
  consider "length bs mod 3 = 0" | "length bs mod 3 = 1" | "length bs mod 3 = 2"
    by linarith
  then have "[0, 2, 3 :: nat] ! (length bs mod 3) mod 4 = [0, 2, 3] ! (length bs mod 3)"
    by cases simp_all
  then show ?thesis
    by (simp only: b64_groups_length mod_mult_self4)
qed

lemma strip_padding_encode: "strip_padding (base64_encode bs) = b64_groups bs"
proof -
  consider "length bs mod 3 = 0" | "length bs mod 3 = 1" | "length bs mod 3 = 2"
    by linarith
  then show ?thesis
  proof cases
    case 1
    then show ?thesis
      by (simp add: base64_encode_def strip_padding_plain b64_groups_plain)
  next
    case 2
    then have "length (b64_groups bs) mod 4 = 2"
      by (simp add: b64_groups_length_mod4)
    then have "strip_padding (b64_groups bs @ ''=='') = b64_groups bs"
      by (rule strip_padding_two)
    with 2 show ?thesis by (simp add: base64_encode_def numeral_2_eq_2)
  next
    case 3
    then have "length (b64_groups bs) mod 4 = 3"
      by (simp add: b64_groups_length_mod4)
    then have "strip_padding (b64_groups bs @ ''='') = b64_groups bs"
      by (rule strip_padding_one) (rule b64_groups_plain)
    with 3 show ?thesis by (simp add: base64_encode_def)
  qed
qed

lemma b64_groups_length_mod: "length (b64_groups bs) mod 4 \<noteq> 1"
proof -
  consider "length bs mod 3 = 0" | "length bs mod 3 = 1" | "length bs mod 3 = 2"
    by linarith
  then show ?thesis by cases (simp_all add: b64_groups_length_mod4)
qed

lemma atob_base64_encode: "atob (base64_encode bs) = Inr (map unat bs)"
proof -
  obtain ss where "sextets (b64_groups bs) = Some ss" "decode_sextets ss = map unat bs"
    using decode_b64_groups by blast
  then show ?thesis
    using b64_groups_length_mod [of bs]
    by (simp add: atob_def Let_def base64_encode_plain strip_padding_encode)
qed

lemma split_on_no_sep: "sep \<notin> set s \<Longrightarrow> split_on sep s = [s]"
  by (induction s) auto

lemma split_on_header:
  "sep \<notin> set h \<Longrightarrow> split_on sep (h @ sep # r) = h # split_on sep r"
  by (induction h) auto

section \<open>White space, and what an exchange never touches\<close>

lemma strip_leading_white_space:
  assumes "w \<in> set white_space"
  shows "strip_leading white_space (w @ r) = strip_leading white_space r"
proof -
  have "\<forall>w \<in> set white_space. strip_leading white_space (w @ r) = strip_leading white_space r"
    unfolding white_space_def by simp
  with assms show ?thesis by blast
qed

lemma trimStart_blank:
  "set ws \<subseteq> set white_space \<Longrightarrow> trimStart (concat ws) = []"
  by (induction ws) (simp_all add: trimStart_def strip_leading_white_space)

lemma trim_blank: "set ws \<subseteq> set white_space \<Longrightarrow> trim (concat ws) = []"
  by (simp add: trim_def trimStart_blank trimEnd_def)

lemma strip_leading_empty:
  "strip_leading W s = [] \<Longrightarrow> \<exists>ws. set ws \<subseteq> set W \<and> s = concat ws"
proof (induction W s rule: strip_leading.induct)
  case (1 W)
  show ?case by (rule exI [of _ "[]"]) simp
next
  case (2 W a s)
  consider (one) "[a] \<in> set W"
    | (two) "[a] \<notin> set W" "take 2 (a # s) \<in> set W"
    | (three) "[a] \<notin> set W" "take 2 (a # s) \<notin> set W" "take 3 (a # s) \<in> set W"
    | (none) "[a] \<notin> set W" "take 2 (a # s) \<notin> set W" "take 3 (a # s) \<notin> set W"
    by blast
  then show ?case
  proof cases
    case one
    with 2 obtain ws where "set ws \<subseteq> set W" "s = concat ws" by auto
    with one show ?thesis by (intro exI [of _ "[a] # ws"]) simp
  next
    case two
    with 2 obtain ws where ws: "set ws \<subseteq> set W" "drop 1 s = concat ws" by auto
    have d: "drop 2 (a # s) = drop 1 s" by (simp add: numeral_2_eq_2)
    have "take 2 (a # s) @ drop 1 s = a # s"
      unfolding d [symmetric] by (rule append_take_drop_id)
    then have "a # s = concat (take 2 (a # s) # ws)"
      unfolding concat.simps ws(2) [symmetric] by (rule sym)
    with two ws(1) show ?thesis by (intro exI [of _ "take 2 (a # s) # ws"]) simp
  next
    case three
    with 2 obtain ws where ws: "set ws \<subseteq> set W" "drop 2 s = concat ws" by auto
    have d: "drop 3 (a # s) = drop 2 s" by (simp add: numeral_3_eq_3 numeral_2_eq_2)
    have "take 3 (a # s) @ drop 2 s = a # s"
      unfolding d [symmetric] by (rule append_take_drop_id)
    then have "a # s = concat (take 3 (a # s) # ws)"
      unfolding concat.simps ws(2) [symmetric] by (rule sym)
    with three ws(1) show ?thesis by (intro exI [of _ "take 3 (a # s) # ws"]) simp
  next
    case none
    with 2 show ?thesis by simp
  qed
qed

lemma strip_leading_result:
  "strip_leading W s = r \<Longrightarrow> r \<noteq> [] \<Longrightarrow>
     take 1 r \<notin> set W \<and> take 2 r \<notin> set W \<and> take 3 r \<notin> set W"
proof (induction W s rule: strip_leading.induct)
  case (1 W)
  then show ?case by simp
next
  case (2 W a s)
  then show ?case by (auto split: if_splits)
qed


lemma white_space_lengths: "\<forall>w \<in> set white_space. length w = 1 \<or> length w = 2 \<or> length w = 3"
  by (simp add: white_space_def)

lemma trim_empty_blank:
  assumes "trim s = []"
  shows "\<exists>ws. set ws \<subseteq> set white_space \<and> s = concat ws"
proof -
  define t where "t = strip_leading white_space s"
  from assms have "strip_leading (map rev white_space) (rev t) = []"
    by (simp add: trim_def trimEnd_def trimStart_def t_def)
  from strip_leading_empty [OF this] obtain ws' where
    ws': "set ws' \<subseteq> set (map rev white_space)" "rev t = concat ws'"
    by blast
  define us where "us = map rev (rev ws')"
  from ws'(2) have "rev (rev t) = rev (concat ws')" by simp
  then have t: "t = concat us" by (simp add: rev_concat us_def)
  from ws'(1) have us: "set us \<subseteq> set white_space" by (auto simp: us_def)
  have "t = []"
  proof (rule ccontr)
    assume nonempty: "t \<noteq> []"
    with t obtain u us' where u: "us = u # us'" by (cases us) auto
    with us have mem: "u \<in> set white_space" by simp
    with white_space_lengths have len: "length u = 1 \<or> length u = 2 \<or> length u = 3" by blast
    from t u have "take (length u) t = u" by simp
    with len mem have "take 1 t \<in> set white_space \<or> take 2 t \<in> set white_space \<or> take 3 t \<in> set white_space"
      by metis
    with strip_leading_result [OF t_def [symmetric] nonempty] show False by blast
  qed
  then have "strip_leading white_space s = []" by (simp add: t_def)
  then show ?thesis by (rule strip_leading_empty)
qed

lemma trim_empty_iff:
  "trim s = [] \<longleftrightarrow> (\<exists>ws. set ws \<subseteq> set white_space \<and> s = concat ws)"
  using trim_empty_blank trim_blank by blast

lemma handleBackendJson_frame:
  "requests (fst (handleBackendJson data st)) = requests st"
  "toasts (fst (handleBackendJson data st)) = toasts st"
  "isLoading (fst (handleBackendJson data st)) = isLoading st"
  by (simp_all add: handleBackendJson_def Let_def createObjectURL_def revokeObjectURL_def
        split: option.splits sum.splits prod.splits)

lemma settle_frame:
  "requests (fst (settle out st)) = requests st"
  "toasts (fst (settle out st)) = toasts st"
  by (simp_all add: settle_def handleBackendJson_frame split: fetch_outcome.splits sum.splits)

lemma await_backend_alt:
  "await_backend out st =
     (case snd (settle out st) of
        None \<Rightarrow> fst (settle out st)
      | Some err \<Rightarrow> toast_error (catch_message err ''Request failed'') (fst (settle out st)))
     \<lparr>isLoading := False\<rparr>"
  by (cases "settle out st") (simp add: await_backend_def split: option.splits)

lemma await_backend_requests: "requests (await_backend out st) = requests st"
  by (simp add: await_backend_alt toast_error_def settle_frame split: option.splits)

lemma fetchEvents_requests:
  "requests' (fetchEvents out st) = requests' (fetchEvents_begin st)"
  by (cases "fetchEvents_settle out (fetchEvents_begin st)")
     (auto simp: fetchEvents_def fetchEvents_settle_def Let_def
        split: option.splits fetch_outcome.splits sum.splits if_splits)

lemma stringify_query:
  "JSON_stringify (JObj [(''query'', JStr t)]) 0 = ''{'' @ quote ''query'' @ '':'' @ quote t @ ''}''"
  by (simp add: JSON_stringify_def)

lemma trim_hi: "trim ''hi'' = ''hi''"
  by (simp add: trim_def trimStart_def trimEnd_def white_space_def)

section \<open>Replies to the text-only component\<close>

lemma str_includes_self: "str_includes s s"
proof -
  have "0 \<in> set [0 ..< Suc (length s)]" by simp
  moreover have "take (length s) (drop 0 s) = s" by simp
  ultimately show ?thesis unfolding str_includes_def list_ex_iff by blast
qed

lemma fetchEvents_alt:
  "fetchEvents out st =
     (case snd (fetchEvents_settle out (fetchEvents_begin st)) of
        None \<Rightarrow> fst (fetchEvents_settle out (fetchEvents_begin st))
      | Some err \<Rightarrow>
          (fst (fetchEvents_settle out (fetchEvents_begin st)))
            \<lparr>console' := console' (fst (fetchEvents_settle out (fetchEvents_begin st))) @ [err],
             toasts' := toasts' (fst (fetchEvents_settle out (fetchEvents_begin st)))
                          @ [Toast_error (catch_message err ''Failed to fetch events'')]\<rparr>)
     \<lparr>isLoading' := False\<rparr>"
  by (cases "fetchEvents_settle out (fetchEvents_begin st)")
     (simp add: fetchEvents_def split: option.splits)

lemma fetchEvents_json_success:
  assumes "ok res" and "contentType res = Some ct" and "str_includes ct ''application/json''"
    and "json_body res = Inr data" and "data \<noteq> JNull"
  shows "markdown' (fetchEvents (Resolved res) st) =
           nullish (get_prop data ''result'')
             (nullish (get_prop data ''output'')
               (nullish (get_prop data ''message'') (JStr (JSON_stringify data 2))))"
  using assms
  by (simp add: fetchEvents_alt fetchEvents_settle_def resolve_text_def)

lemma ok_200: "ok (json_response 200 reason data)"
  by (simp add: ok_def json_response_def)

lemma fetchEvents_null_body:
  "fetchEvents (Resolved (json_response 200 ''OK'' JNull)) initial_improved
     = initial_improved
         \<lparr>requests' := requests' (fetchEvents_begin initial_improved),
          console' := [null_access ''result''],
          toasts' := [Toast_error (message (null_access ''result''))]\<rparr>"
  by (simp add: fetchEvents_alt fetchEvents_settle_def str_includes_self resolve_text_def
        json_response_def catch_message_def null_access_def fetchEvents_begin_def initial_improved_def)

section \<open>Replies with a status outside 2xx\<close>


lemma await_backend_thrown:
  "settle out st = (st1, Some err)
   \<Longrightarrow> await_backend out st = (toast_error (catch_message err ''Request failed'') st1)\<lparr>isLoading := False\<rparr>"
  by (simp add: await_backend_def)

lemma await_backend_v1_thrown:
  "settle_v1 out st = (st1, Some err)
   \<Longrightarrow> await_backend_v1 out st = (toast_error (catch_message err ''Request failed'') st1)\<lparr>isLoading := False\<rparr>"
  by (simp add: await_backend_v1_def)


section \<open>Recording\<close>

lemma onstop_empty:
  assumes "concat (map blob_bytes (chunksRef st)) = []"
  shows "onstop r st = toast_error ''Empty recording, try again.'' st"
    and "onstop_v1 r st = toast_error ''Recording empty.'' st"
  using assms by (simp_all add: onstop_def onstop_v1_def new_Blob_def)

lemma started:
  "startRecording local_platform initial =
     \<lparr>mode = Voice, markdown = JStr [], audioUrl = [], isLoading = False, isRecording = True,
      textQuery = [],
      mediaRecorderRef = Some \<lparr>rec_stream = 0, rec_mimeType = ''audio/webm;codecs=opus'', rec_recording = True\<rparr>,
      chunksRef = [], toasts = [Toast_message (''Recording'' @ ellipsis)], requests = [],
      objectUrls = [], urlCounter = 0, liveStreams = [0], streamCounter = 1, micRequests = 1\<rparr>"
  by (simp add: startRecording_def local_platform_def queryMicPermission_def initial_def Let_def)

lemma started_v1:
  "startRecording_v1 local_platform initial =
     \<lparr>mode = Voice, markdown = JStr [], audioUrl = [], isLoading = False, isRecording = True,
      textQuery = [],
      mediaRecorderRef = Some \<lparr>rec_stream = 0, rec_mimeType = ''audio/webm;codecs=opus'', rec_recording = True\<rparr>,
      chunksRef = [], toasts = [Toast_success (''Recording'' @ ellipsis)], requests = [],
      objectUrls = [], urlCounter = 0, liveStreams = [0], streamCounter = 1, micRequests = 1\<rparr>"
  by (simp add: startRecording_v1_def local_platform_def queryMicPermission_def initial_def Let_def
        isSecureContextOrLocal_def)

lemma startRecording_v1_insecure:
  "\<not> isSecureContextOrLocal p \<Longrightarrow> startRecording_v1 p st = toast_error ''Insecure context.'' st"
  by (simp add: startRecording_v1_def)

lemma onstop_empty_leaves_stream_live:
  assumes "concat (map blob_bytes (chunksRef st)) = []"
  shows "liveStreams (onstop r st) = liveStreams st" and "liveStreams (onstop_v1 r st) = liveStreams st"
  by (simp_all add: onstop_empty [OF assms] toast_error_def)

lemma onstop_sent_stops_tracks:
  assumes "concat (map blob_bytes (chunksRef st)) \<noteq> []"
  shows "rec_stream r \<notin> set (liveStreams (onstop r st))"
    and "rec_stream r \<notin> set (liveStreams (onstop_v1 r st))"
  using assms by (auto simp: onstop_def onstop_v1_def new_Blob_def stop_tracks_def)

section \<open>What a failed exchange leaves behind\<close>

lemma await_backend_v1_alt:
  "await_backend_v1 out st =
     (case snd (settle_v1 out st) of
        None \<Rightarrow> fst (settle_v1 out st)
      | Some err \<Rightarrow> toast_error (catch_message err ''Request failed'') (fst (settle_v1 out st)))
     \<lparr>isLoading := False\<rparr>"
  by (cases "settle_v1 out st") (simp add: await_backend_v1_def split: option.splits)

lemma settle_failed:
  assumes "snd (settle out s) = Some err"
  shows "(\<forall>res data t. out = Resolved res \<and> ok res \<and> json_body res = Inr data
            \<and> get_prop data ''text'' = Some t \<and> truthy t \<longrightarrow> fst (settle out s) = s\<lparr>markdown := t\<rparr>)
       \<and> ((\<nexists>res data t. out = Resolved res \<and> ok res \<and> json_body res = Inr data
            \<and> get_prop data ''text'' = Some t \<and> truthy t) \<longrightarrow> fst (settle out s) = s)"
proof (cases out)
  case (Rejected e)
  then show ?thesis by (simp add: settle_def)
next
  case (Resolved res)
  show ?thesis
  proof (cases "json_body res")
    case (Inl e)
    with Resolved show ?thesis by (simp add: settle_def)
  next
    case (Inr data)
    show ?thesis
    proof (cases "ok res")
      case False
      with Resolved Inr show ?thesis by (simp add: settle_def)
    next
      case True
      with Resolved Inr assms show ?thesis
        by (auto simp: settle_def handleBackendJson_def Let_def
              split: option.splits sum.splits prod.splits if_splits)
    qed
  qed
qed

lemma await_backend_failed:
  assumes "snd (settle out s) = Some err"
  shows "(\<forall>res data t. out = Resolved res \<and> ok res \<and> json_body res = Inr data
            \<and> get_prop data ''text'' = Some t \<and> truthy t \<longrightarrow>
            await_backend out s =
              s\<lparr>markdown := t, isLoading := False,
                toasts := toasts s @ [Toast_error (catch_message err ''Request failed'')]\<rparr>)
       \<and> ((\<nexists>res data t. out = Resolved res \<and> ok res \<and> json_body res = Inr data
            \<and> get_prop data ''text'' = Some t \<and> truthy t) \<longrightarrow>
            await_backend out s =
              s\<lparr>isLoading := False,
                toasts := toasts s @ [Toast_error (catch_message err ''Request failed'')]\<rparr>)"
  using settle_failed [OF assms] assms
  by (auto simp: await_backend_alt toast_error_def)

lemma settle_v1_failed:
  assumes "snd (settle_v1 out s) = Some err"
  shows "(\<forall>res data t. out = Resolved res \<and> ok res \<and> json_body res = Inr data
            \<and> get_prop data ''text'' = Some t \<and> truthy t \<longrightarrow> fst (settle_v1 out s) = s\<lparr>markdown := t\<rparr>)
       \<and> ((\<nexists>res data t. out = Resolved res \<and> ok res \<and> json_body res = Inr data
            \<and> get_prop data ''text'' = Some t \<and> truthy t) \<longrightarrow> fst (settle_v1 out s) = s)"
proof (cases out)
  case (Rejected e)
  then show ?thesis by (simp add: settle_v1_def)
next
  case (Resolved res)
  show ?thesis
  proof (cases "json_body res")
    case (Inl e)
    with Resolved show ?thesis by (simp add: settle_v1_def)
  next
    case (Inr data)
    show ?thesis
    proof (cases "ok res")
      case False
      with Resolved Inr show ?thesis by (simp add: settle_v1_def)
    next
      case True
      with Resolved Inr assms show ?thesis
        by (auto simp: settle_v1_def handleBackendJson_def Let_def
              split: option.splits sum.splits prod.splits if_splits)
    qed
  qed
qed

lemma await_backend_v1_failed:
  assumes "snd (settle_v1 out s) = Some err"
  shows "(\<forall>res data t. out = Resolved res \<and> ok res \<and> json_body res = Inr data
            \<and> get_prop data ''text'' = Some t \<and> truthy t \<longrightarrow>
            await_backend_v1 out s =
              s\<lparr>markdown := t, isLoading := False,
                toasts := toasts s @ [Toast_error (catch_message err ''Request failed'')]\<rparr>)
       \<and> ((\<nexists>res data t. out = Resolved res \<and> ok res \<and> json_body res = Inr data
            \<and> get_prop data ''text'' = Some t \<and> truthy t) \<longrightarrow>
            await_backend_v1 out s =
              s\<lparr>isLoading := False,
                toasts := toasts s @ [Toast_error (catch_message err ''Request failed'')]\<rparr>)"
  using settle_v1_failed [OF assms] assms
  by (auto simp: await_backend_v1_alt toast_error_def)

lemma atob_star: "atob ''*'' = Inl (DOMException ''InvalidCharacterError'' ''Invalid character'')"
  by (simp add: atob_def strip_padding_def ascii_whitespace_def b64_alphabet_def)

lemma settle_undecodable:
  "settle (Resolved (json_response 200 ''OK'' (JObj [(''text'', JStr ''new''), (''audio_b64'', JStr ''*'')]))) s
     = (s\<lparr>markdown := JStr ''new''\<rparr>, Some (DOMException ''InvalidCharacterError'' ''Invalid character''))"
  "settle_v1 (Resolved (json_response 200 ''OK'' (JObj [(''text'', JStr ''new''), (''audio_b64'', JStr ''*'')]))) s
     = (s\<lparr>markdown := JStr ''new''\<rparr>, Some (DOMException ''InvalidCharacterError'' ''Invalid character''))"
  by (simp_all add: settle_def settle_v1_def ok_def json_response_def handleBackendJson_def
        base64ToBlob_any_def base64ToBlob_def atob_star or_else_def)

lemma undecodable_reply:
  "Resolved (json_response 200 ''OK'' (JObj [(''text'', JStr ''new''), (''audio_b64'', JStr ''*'')])) = Resolved (json_response 200 ''OK'' (JObj [(''text'', JStr ''new''), (''audio_b64'', JStr ''*'')])) \<and> ok (json_response 200 ''OK'' (JObj [(''text'', JStr ''new''), (''audio_b64'', JStr ''*'')]))
   \<and> json_body (json_response 200 ''OK'' (JObj [(''text'', JStr ''new''), (''audio_b64'', JStr ''*'')])) = Inr (JObj [(''text'', JStr ''new''), (''audio_b64'', JStr ''*'')])
   \<and> get_prop (JObj [(''text'', JStr ''new''), (''audio_b64'', JStr ''*'')]) ''text'' = Some (JStr ''new'')
   \<and> truthy (JStr ''new'')"
  by (simp add: ok_def json_response_def)

section \<open>What a successful exchange leaves behind\<close>

lemma handleBackendJson_ok:
  assumes "snd (handleBackendJson data s) = None" and "audioUrl s = []"
  shows "(\<forall>t. get_prop data ''text'' = Some t \<and> truthy t \<longrightarrow> markdown (fst (handleBackendJson data s)) = t)
       \<and> (\<not> truthy_opt (get_prop data ''text'') \<longrightarrow> markdown (fst (handleBackendJson data s)) = markdown s)
       \<and> (\<not> truthy_opt (get_prop data ''audio_b64'') \<longrightarrow>
            audioUrl (fst (handleBackendJson data s)) = []
          \<and> objectUrls (fst (handleBackendJson data s)) = objectUrls s)
       \<and> (\<forall>a. get_prop data ''audio_b64'' = Some a \<and> truthy a \<longrightarrow>
            (\<exists>b. base64ToBlob_any a (Some (to_str (or_else (get_prop data ''mime'') (JStr ''audio/mpeg'')))) = Inr b
               \<and> audioUrl (fst (handleBackendJson data s)) = ''blob:'' @ show_nat (urlCounter s)
               \<and> objectUrls (fst (handleBackendJson data s))
                   = objectUrls s @ [(''blob:'' @ show_nat (urlCounter s), b)]))"
  using assms
  by (auto simp: handleBackendJson_def Let_def truthy_opt_def createObjectURL_def
        split: option.splits sum.splits if_splits)

lemma settle_ok:
  assumes "snd (settle out s) = None"
  shows "\<exists>res data. out = Resolved res \<and> ok res \<and> json_body res = Inr data
           \<and> settle out s = handleBackendJson data s"
  using assms
  by (auto simp: settle_def split: fetch_outcome.splits sum.splits if_splits)

lemma await_backend_ok:
  assumes "snd (settle out s) = None" and "audioUrl s = []"
  shows "\<exists>res data. out = Resolved res \<and> ok res \<and> json_body res = Inr data
       \<and> (\<forall>t. get_prop data ''text'' = Some t \<and> truthy t \<longrightarrow> markdown (await_backend out s) = t)
       \<and> (\<not> truthy_opt (get_prop data ''text'') \<longrightarrow> markdown (await_backend out s) = markdown s)
       \<and> (\<not> truthy_opt (get_prop data ''audio_b64'') \<longrightarrow>
            audioUrl (await_backend out s) = [] \<and> objectUrls (await_backend out s) = objectUrls s)
       \<and> (\<forall>a. get_prop data ''audio_b64'' = Some a \<and> truthy a \<longrightarrow>
            (\<exists>b. base64ToBlob_any a (Some (to_str (or_else (get_prop data ''mime'') (JStr ''audio/mpeg'')))) = Inr b
               \<and> audioUrl (await_backend out s) = ''blob:'' @ show_nat (urlCounter s)
               \<and> objectUrls (await_backend out s)
                   = objectUrls s @ [(''blob:'' @ show_nat (urlCounter s), b)]))"
proof -
  from settle_ok [OF assms(1)] obtain res data where
    reply: "out = Resolved res" "ok res" "json_body res = Inr data"
      and eq: "settle out s = handleBackendJson data s"
    by blast
  from assms(1) eq have "snd (handleBackendJson data s) = None" by simp
  from handleBackendJson_ok [OF this assms(2)] assms(1) eq reply show ?thesis
    by (intro exI [of _ res] exI [of _ data]) (simp add: await_backend_alt)
qed


lemma await_backend_v1_ok:
  assumes "snd (settle_v1 out s) = None" and "audioUrl s = []"
  shows "\<exists>res data. out = Resolved res \<and> ok res \<and> json_body res = Inr data
       \<and> (\<forall>t. get_prop data ''text'' = Some t \<and> truthy t \<longrightarrow> markdown (await_backend_v1 out s) = t)
       \<and> (\<not> truthy_opt (get_prop data ''text'') \<longrightarrow> markdown (await_backend_v1 out s) = markdown s)
       \<and> (\<not> truthy_opt (get_prop data ''audio_b64'') \<longrightarrow>
            audioUrl (await_backend_v1 out s) = [] \<and> objectUrls (await_backend_v1 out s) = objectUrls s)
       \<and> (\<forall>a. get_prop data ''audio_b64'' = Some a \<and> truthy a \<longrightarrow>
            (\<exists>b. base64ToBlob_any a (Some (to_str (or_else (get_prop data ''mime'') (JStr ''audio/mpeg'')))) = Inr b
               \<and> audioUrl (await_backend_v1 out s) = ''blob:'' @ show_nat (urlCounter s)
               \<and> objectUrls (await_backend_v1 out s)
                   = objectUrls s @ [(''blob:'' @ show_nat (urlCounter s), b)]))"
proof (cases out)
  case (Rejected e)
  with assms show ?thesis by (simp add: settle_v1_def)
next
  case (Resolved res)
  show ?thesis
  proof (cases "json_body res")
    case (Inl e)
    with assms Resolved show ?thesis by (simp add: settle_v1_def)
  next
    case (Inr data)
    with assms Resolved have "ok res" by (auto simp: settle_v1_def split: if_splits)
    with assms Resolved Inr show ?thesis
      by (intro exI [of _ res] exI [of _ data])
         (auto simp: await_backend_v1_alt settle_v1_def Let_def truthy_opt_def createObjectURL_def
            split: option.splits sum.splits if_splits)
  qed
qed

lemma show_nat_0: "show_nat 0 = ''0''"
  by (simp add: show_nat.simps [of 0] dec_digit_def char_of_def bit_0)

lemma settle_text_reply:
  "settle (Resolved (json_response 200 ''OK'' (JObj [(''text'', JStr ''hello'')]))) s
     = (s\<lparr>markdown := JStr ''hello''\<rparr>, None)"
  "settle_v1 (Resolved (json_response 200 ''OK'' (JObj [(''text'', JStr ''hello'')]))) s
     = (s\<lparr>markdown := JStr ''hello'', toasts := toasts s @ [Toast_success ''Response ready'']\<rparr>, None)"
  by (simp_all add: settle_def settle_v1_def ok_def json_response_def handleBackendJson_def)

section \<open>Resolving the markdown of a JSON reply\<close>

text \<open>
  C1, as stated, fails for a field that is present and holds \<open>null\<close>: the chain of
  \<open>??\<close> passes over it. A 2xx JSON reply \<open>{result: null, output: "B"}\<close> resolves
  to \<open>"B"\<close>, not to the value of the present field \<open>result\<close>.
\<close>

theorem fetchEvents_null_result_counterexample:
  "get_prop (JObj [(''result'', JNull), (''output'', JStr ''B'')]) ''result'' = Some JNull
   \<and> markdown' (fetchEvents
        (Resolved (json_response 200 ''OK'' (JObj [(''result'', JNull), (''output'', JStr ''B'')])))
        initial_improved) = JStr ''B''"
  using fetchEvents_json_success
    [of "json_response 200 ''OK'' (JObj [(''result'', JNull), (''output'', JStr ''B'')])"
        "''application/json''" "JObj [(''result'', JNull), (''output'', JStr ''B'')]" initial_improved]
  by (simp add: ok_200 str_includes_self) (simp add: json_response_def nullish_def)

text \<open>
  C1, amended. For every 2xx reply declared as JSON whose body is not the bare value
  \<open>null\<close>, the markdown shown by \<open>fetchEvents\<close> is the value of the first of the
  fields \<open>result\<close>, \<open>output\<close>, \<open>message\<close> that is present and not
  \<open>null\<close>, and the dump of the whole reply with an indent of two when there is none.
\<close>

theorem fetchEvents_field_priority:
  assumes "ok res" and "contentType res = Some ct" and "str_includes ct ''application/json''"
    and "json_body res = Inr data" and "data \<noteq> JNull"
  shows "(\<forall>v. get_prop data ''result'' = Some v \<and> v \<noteq> JNull
            \<longrightarrow> markdown' (fetchEvents (Resolved res) st) = v)
       \<and> (\<forall>v. get_prop data ''result'' \<in> {None, Some JNull}
              \<and> get_prop data ''output'' = Some v \<and> v \<noteq> JNull
            \<longrightarrow> markdown' (fetchEvents (Resolved res) st) = v)
       \<and> (\<forall>v. get_prop data ''result'' \<in> {None, Some JNull}
              \<and> get_prop data ''output'' \<in> {None, Some JNull}
              \<and> get_prop data ''message'' = Some v \<and> v \<noteq> JNull
            \<longrightarrow> markdown' (fetchEvents (Resolved res) st) = v)
       \<and> (get_prop data ''result'' \<in> {None, Some JNull}
              \<and> get_prop data ''output'' \<in> {None, Some JNull}
              \<and> get_prop data ''message'' \<in> {None, Some JNull}
            \<longrightarrow> markdown' (fetchEvents (Resolved res) st) = JStr (JSON_stringify data 2))"
  unfolding fetchEvents_json_success [OF assms]
  by (auto simp: nullish_def split: json.splits)

theorem fetchEvents_field_priority_witness:
  "ok (json_response 200 ''OK'' (JObj [(''result'', JStr ''A''), (''output'', JStr ''B'')]))
   \<and> markdown' (fetchEvents
        (Resolved (json_response 200 ''OK'' (JObj [(''result'', JStr ''A''), (''output'', JStr ''B'')])))
        initial_improved) = JStr ''A''
   \<and> markdown' (fetchEvents
        (Resolved (json_response 200 ''OK'' (JObj [(''output'', JStr ''B''), (''message'', JStr ''C'')])))
        initial_improved) = JStr ''B''
   \<and> markdown' (fetchEvents (Resolved (json_response 200 ''OK'' (JObj []))) initial_improved)
       = JStr ''{}''"
  using
    fetchEvents_field_priority
      [of "json_response 200 ''OK'' (JObj [(''result'', JStr ''A''), (''output'', JStr ''B'')])"
          "''application/json''" "JObj [(''result'', JStr ''A''), (''output'', JStr ''B'')]" initial_improved]
    fetchEvents_field_priority
      [of "json_response 200 ''OK'' (JObj [(''output'', JStr ''B''), (''message'', JStr ''C'')])"
          "''application/json''" "JObj [(''output'', JStr ''B''), (''message'', JStr ''C'')]" initial_improved]
    fetchEvents_field_priority
      [of "json_response 200 ''OK'' (JObj [])" "''application/json''" "JObj []" initial_improved]
  by (simp add: ok_200 str_includes_self) (simp add: json_response_def JSON_stringify_def)

section \<open>The message of a backend error\<close>




section \<open>Stopping and starting a recording\<close>

text \<open>
  C6. When the chunks gathered by a recording concatenate to an empty buffer, the stop
  handler reports the empty recording with an error toast and does nothing else: no request
  is added to the log and the loading flag is not raised, so \<open>sendAudio\<close> has not
  been entered. The same holds for a whole \<open>stopRecording\<close> whose last chunk is
  empty too, in both versions of the component.
\<close>

theorem empty_recording_not_sent:
  assumes "concat (map blob_bytes (chunksRef st)) = []" and "blob_bytes last_data = []"
  shows "onstop r st = st\<lparr>toasts := toasts st @ [Toast_error ''Empty recording, try again.'']\<rparr>
       \<and> requests (onstop r st) = requests st
       \<and> isLoading (onstop r st) = isLoading st
       \<and> onstop_v1 r st = st\<lparr>toasts := toasts st @ [Toast_error ''Recording empty.'']\<rparr>
       \<and> requests (onstop_v1 r st) = requests st
       \<and> isLoading (onstop_v1 r st) = isLoading st
       \<and> (mediaRecorderRef st = Some r \<and> rec_recording r \<longrightarrow>
            requests (stopRecording last_data st) = requests st
          \<and> toasts (stopRecording last_data st) = toasts st @ [Toast_error ''Empty recording, try again.'']
          \<and> requests (stopRecording_v1 last_data st) = requests st
          \<and> toasts (stopRecording_v1 last_data st) = toasts st @ [Toast_error ''Recording empty.''])"
proof -
  let ?st = "st\<lparr>mediaRecorderRef := Some (r\<lparr>rec_recording := False\<rparr>), isRecording := False\<rparr>"
  have chunks: "concat (map blob_bytes (chunksRef (ondataavailable last_data ?st))) = []"
    using assms by (simp add: ondataavailable_def)
  show ?thesis
    using onstop_empty [OF assms(1), of r] onstop_empty [OF chunks, of r] assms(2)
    by (simp add: toast_error_def stopRecording_def stopRecording_v1_def ondataavailable_def)
qed

theorem empty_recording_not_sent_witness:
  "concat (map blob_bytes (chunksRef (startRecording local_platform initial))) = []
   \<and> blob_bytes (new_Blob [] []) = []
   \<and> requests (stopRecording (new_Blob [] []) (startRecording local_platform initial)) = []
   \<and> toasts (stopRecording (new_Blob [] []) (startRecording local_platform initial))
       = [Toast_message (''Recording'' @ ellipsis), Toast_error ''Empty recording, try again.'']"
  using empty_recording_not_sent
    [of "startRecording local_platform initial" "new_Blob [] []"
        "\<lparr>rec_stream = 0, rec_mimeType = ''audio/webm;codecs=opus'', rec_recording = True\<rparr>"]
  by (simp add: started new_Blob_def)

text \<open>
  C3. The tracks of the stream are to be released on every stop, the empty recording
  included. The stop handler returns from the empty case before it reaches the line that
  stops the tracks: after starting a recording and stopping it with no data, stream 0 is
  still live in both versions, while a recording with data releases it.
\<close>

theorem empty_recording_keeps_tracks:
  "liveStreams (startRecording local_platform initial) = [0]
   \<and> liveStreams (stopRecording (new_Blob [] []) (startRecording local_platform initial)) = [0]
   \<and> liveStreams (stopRecording_v1 (new_Blob [] []) (startRecording_v1 local_platform initial)) = [0]
   \<and> liveStreams (stopRecording (new_Blob [1, 2, 3] ''audio/webm'') (startRecording local_platform initial)) = []"
  by (simp add: started started_v1 stopRecording_def stopRecording_v1_def ondataavailable_def
        onstop_def onstop_v1_def new_Blob_def toast_error_def stop_tracks_def sendAudio_begin_def)

text \<open>
  C4. Starting a recording outside a secure or local context is to fail at once as an
  insecure context, with no request for the device. The earlier version checks this first.
  The later version has no such check in \<open>startRecording\<close>: on a platform that is
  neither secure nor local but offers \<open>getUserMedia\<close> it requests the device and
  records, and on one that does not offer it the failure reported is the missing
  \<open>getUserMedia\<close>, not the insecure context.
\<close>

theorem startRecording_insecure_requests_device:
  "\<not> isSecureContextOrLocal insecure_platform
   \<and> micRequests (startRecording insecure_platform initial) = 1
   \<and> liveStreams (startRecording insecure_platform initial) = [0]
   \<and> toasts (startRecording insecure_platform initial) = [Toast_message (''Recording'' @ ellipsis)]
   \<and> toasts (startRecording (insecure_platform\<lparr>has_getUserMedia := False\<rparr>) initial)
       = [Toast_error ''getUserMedia not supported in this browser.'']
   \<and> micRequests (startRecording_v1 insecure_platform initial) = 0
   \<and> toasts (startRecording_v1 insecure_platform initial) = [Toast_error ''Insecure context.'']"
  by (simp add: startRecording_def startRecording_v1_def insecure_platform_def local_platform_def
        isSecureContextOrLocal_def queryMicPermission_def initial_def Let_def toast_error_def)

section \<open>Decoding the audio of a reply\<close>

lemma base64_encode_rfc4648_vectors:
  "base64_encode [102] = ''Zg==''"
  "base64_encode [102, 111] = ''Zm8=''"
  "base64_encode [102, 111, 111] = ''Zm9v''"
  "base64_encode [102, 111, 111, 98, 97, 114] = ''Zm9vYmFy''"
  by (simp_all add: base64_encode_def b64_char_def b64_alphabet_def replicate_two)

text \<open>
  C5. For every byte buffer, \<open>base64ToBlob\<close> applied to the base64 encoding of the
  buffer yields a blob holding exactly the bytes of the buffer, and it does so as well when
  a data-URI header (the text up to the comma that ends it, which holds no other comma)
  stands in front of the encoding.
\<close>

theorem base64ToBlob_left_inverse:
  assumes "CHR '','' \<notin> set header"
  shows "map_sum id blob_bytes (base64ToBlob (base64_encode bs) mime) = Inr bs
       \<and> map_sum id blob_bytes (base64ToBlob (header @ '','' @ base64_encode bs) mime) = Inr bs"
proof -
  have bytes: "map of_nat (map unat bs) = bs"
    by (simp add: map_idI)
  have "drop 1 (split_on (CHR '','') (header @ CHR '','' # base64_encode bs)) = [base64_encode bs]"
    using assms by (simp add: split_on_header split_on_no_sep base64_encode_plain)
  then show ?thesis
    using bytes
    by (simp add: base64ToBlob_def Let_def atob_base64_encode base64_encode_plain new_Blob_def
          del: drop_Suc_Cons One_nat_def)
qed

theorem base64ToBlob_left_inverse_witness:
  "CHR '','' \<notin> set ''data:audio/mpeg;base64''
   \<and> map_sum id blob_bytes (base64ToBlob (base64_encode [255, 0, 77, 9]) (Some ''audio/mpeg''))
       = Inr [255, 0, 77, 9]
   \<and> map_sum id blob_bytes
        (base64ToBlob (''data:audio/mpeg;base64'' @ '','' @ base64_encode [255, 0, 77, 9]) (Some ''audio/mpeg''))
       = Inr [255, 0, 77, 9]"
  using base64ToBlob_left_inverse [of "''data:audio/mpeg;base64''" "[255, 0, 77, 9]" "Some ''audio/mpeg''"]
  by simp

section \<open>The text request\<close>

text \<open>
  C7, as stated for every text input, fails on \<open>sendText\<close>: a text that is empty or
  only whitespace is turned away before any request is built. The request log of an attempt
  with two spaces stays empty.
\<close>

theorem sendText_blank_counterexample:
  "requests (sendText (Rejected (TypeError ''Failed to fetch'')) (initial\<lparr>textQuery := ''  ''\<rparr>)) = []"
  by (simp add: sendText_def trim_def trimStart_def trimEnd_def white_space_def toast_error_def initial_def)

text \<open>
  C7, amended. For every text that the guard of \<open>sendText\<close> lets through (its trimmed
  form is not empty, which by \<open>trim_empty_iff\<close> means that the text is not made of white
  space alone), \<open>sendText\<close> issues exactly one request: a POST to the backend
  whose only header is the JSON content type and whose body is the serialisation of the
  object with the single member \<open>query\<close> holding the text. \<open>fetchEvents\<close>
  issues the same request for its input, whatever the outcome of the exchange.
\<close>

theorem sendText_request:
  assumes "trim (textQuery st) \<noteq> []"
  shows "requests (sendText out st) = requests st @
           [\<lparr>url = BACKEND_URL, http_method = ''POST'',
             headers = [(''Content-Type'', ''application/json'')],
             body = JsonBody (JSON_stringify (JObj [(''query'', JStr (textQuery st))]) 0)\<rparr>]
       \<and> requests' (fetchEvents out ist) = requests' ist @
           [\<lparr>url = ''http://127.0.0.1:8080/assistant'', http_method = ''POST'',
             headers = [(''Content-Type'', ''application/json'')],
             body = JsonBody (JSON_stringify (JObj [(''query'', JStr (input ist))]) 0)\<rparr>]"
  using assms
  by (simp add: sendText_def await_backend_requests sendText_begin_def fetchEvents_requests
        fetchEvents_begin_def)

theorem sendText_request_witness:
  "trim (textQuery (initial\<lparr>textQuery := ''hi''\<rparr>)) \<noteq> []
   \<and> map body (requests (sendText (Rejected (TypeError ''Failed to fetch'')) (initial\<lparr>textQuery := ''hi''\<rparr>)))
       = [JsonBody (''{'' @ [CHR 0x22] @ ''query'' @ [CHR 0x22] @ '':'' @ [CHR 0x22] @ ''hi'' @ [CHR 0x22] @ ''}'')]"
  using sendText_request [of "initial\<lparr>textQuery := ''hi''\<rparr>" "Rejected (TypeError ''Failed to fetch'')" initial_improved]
  by (simp add: trim_hi initial_def stringify_query quote_def quote_char_def)

section \<open>What a send attempt does to the earlier result\<close>

text \<open>
  C8, as stated for every failed attempt, fails when the failure is raised while a 2xx
  reply is being handled: \<open>handleBackendJson\<close> stores the text of the reply before it
  decodes the audio. For a reply \<open>{text: "new", audio_b64: "*"}\<close> the decoding throws,
  so the attempt fails, by text and by voice alike, and the markdown shown is already
  \<open>"new"\<close>.
\<close>

theorem failed_send_markdown_counterexample:
  "snd (settle (Resolved (json_response 200 ''OK'' (JObj [(''text'', JStr ''new''), (''audio_b64'', JStr ''*'')]))) (sendText_begin (initial\<lparr>textQuery := ''hi'', markdown := JStr ''old''\<rparr>))) \<noteq> None
   \<and> markdown (initial\<lparr>textQuery := ''hi'', markdown := JStr ''old''\<rparr>) = JStr ''old''
   \<and> markdown (sendText (Resolved (json_response 200 ''OK'' (JObj [(''text'', JStr ''new''), (''audio_b64'', JStr ''*'')]))) (initial\<lparr>textQuery := ''hi'', markdown := JStr ''old''\<rparr>)) = JStr ''new''
   \<and> snd (settle (Resolved (json_response 200 ''OK'' (JObj [(''text'', JStr ''new''), (''audio_b64'', JStr ''*'')]))) (sendAudio_begin (new_Blob [1, 2, 3] ''audio/webm'') (initial\<lparr>markdown := JStr ''old''\<rparr>))) \<noteq> None
   \<and> markdown (initial\<lparr>markdown := JStr ''old''\<rparr>) = JStr ''old''
   \<and> markdown (sendAudio (new_Blob [1, 2, 3] ''audio/webm'') (Resolved (json_response 200 ''OK'' (JObj [(''text'', JStr ''new''), (''audio_b64'', JStr ''*'')]))) (initial\<lparr>markdown := JStr ''old''\<rparr>)) = JStr ''new''"
  by (simp add: sendText_def sendAudio_def trim_hi await_backend_alt settle_undecodable toast_error_def)

text \<open>
  C8, amended. For every failed send attempt (\<open>sendAudio\<close> of either version in any
  state, \<open>sendText\<close> for a text that its guard lets through), the state afterwards is
  the state before with the audio cleared, the loading flag lowered, the request logged and
  the error toast added. When the reply was a 2xx JSON reply with a truthy \<open>text\<close>, so
  that the failure was raised while the reply was being handled, the markdown is that text;
  in every other case the markdown is untouched. Nothing else changes (in the earlier
  version the object URL of the earlier audio is revoked at the start, which is part of
  clearing it).
\<close>

theorem failed_send_frame:
  "(trim (textQuery st) \<noteq> [] \<longrightarrow>
      (\<forall>err. snd (settle out (sendText_begin st)) = Some err \<longrightarrow>
            (\<forall>res data t. out = Resolved res \<and> ok res \<and> json_body res = Inr data
                   \<and> get_prop data ''text'' = Some t \<and> truthy t \<longrightarrow>
               sendText out st = st\<lparr>markdown := t, audioUrl := [], isLoading := False,
                       requests := requests (sendText_begin st),
                       toasts := toasts st @ [Toast_error (catch_message err ''Request failed'')]\<rparr>)
          \<and> ((\<nexists>res data t. out = Resolved res \<and> ok res \<and> json_body res = Inr data
                   \<and> get_prop data ''text'' = Some t \<and> truthy t) \<longrightarrow>
               sendText out st = st\<lparr>audioUrl := [], isLoading := False,
                       requests := requests (sendText_begin st),
                       toasts := toasts st @ [Toast_error (catch_message err ''Request failed'')]\<rparr>)))
   \<and> (\<forall>err. snd (settle out (sendAudio_begin b st)) = Some err \<longrightarrow>
            (\<forall>res data t. out = Resolved res \<and> ok res \<and> json_body res = Inr data
                   \<and> get_prop data ''text'' = Some t \<and> truthy t \<longrightarrow>
               sendAudio b out st = st\<lparr>markdown := t, audioUrl := [], isLoading := False,
                       requests := requests (sendAudio_begin b st),
                       toasts := toasts st @ [Toast_error (catch_message err ''Request failed'')]\<rparr>)
          \<and> ((\<nexists>res data t. out = Resolved res \<and> ok res \<and> json_body res = Inr data
                   \<and> get_prop data ''text'' = Some t \<and> truthy t) \<longrightarrow>
               sendAudio b out st = st\<lparr>audioUrl := [], isLoading := False,
                       requests := requests (sendAudio_begin b st),
                       toasts := toasts st @ [Toast_error (catch_message err ''Request failed'')]\<rparr>))
   \<and> (\<forall>err. snd (settle_v1 out (sendAudio_begin_v1 b st)) = Some err \<longrightarrow>
            (\<forall>res data t. out = Resolved res \<and> ok res \<and> json_body res = Inr data
                   \<and> get_prop data ''text'' = Some t \<and> truthy t \<longrightarrow>
               sendAudio_v1 b out st = st\<lparr>markdown := t, audioUrl := [], isLoading := False,
                       requests := requests (sendAudio_begin_v1 b st),
                       objectUrls := objectUrls (sendAudio_begin_v1 b st),
                       toasts := toasts st @ [Toast_error (catch_message err ''Request failed'')]\<rparr>)
          \<and> ((\<nexists>res data t. out = Resolved res \<and> ok res \<and> json_body res = Inr data
                   \<and> get_prop data ''text'' = Some t \<and> truthy t) \<longrightarrow>
               sendAudio_v1 b out st = st\<lparr>audioUrl := [], isLoading := False,
                       requests := requests (sendAudio_begin_v1 b st),
                       objectUrls := objectUrls (sendAudio_begin_v1 b st),
                       toasts := toasts st @ [Toast_error (catch_message err ''Request failed'')]\<rparr>))"
proof (intro conjI impI allI)
  fix err
  assume guard: "trim (textQuery st) \<noteq> []" and failed: "snd (settle out (sendText_begin st)) = Some err"
  have send: "sendText out st = await_backend out (sendText_begin st)"
    using guard by (simp add: sendText_def)
  note frame = await_backend_failed [OF failed]
  {
    fix res data t
    assume "out = Resolved res \<and> ok res \<and> json_body res = Inr data
                   \<and> get_prop data ''text'' = Some t \<and> truthy t"
    with frame show "sendText out st = st\<lparr>markdown := t, audioUrl := [], isLoading := False,
                       requests := requests (sendText_begin st),
                       toasts := toasts st @ [Toast_error (catch_message err ''Request failed'')]\<rparr>"
      unfolding send by (simp add: sendText_begin_def)
  next
    assume "\<nexists>res data t. out = Resolved res \<and> ok res \<and> json_body res = Inr data
                   \<and> get_prop data ''text'' = Some t \<and> truthy t"
    with frame show "sendText out st = st\<lparr>audioUrl := [], isLoading := False,
                       requests := requests (sendText_begin st),
                       toasts := toasts st @ [Toast_error (catch_message err ''Request failed'')]\<rparr>"
      unfolding send by (simp add: sendText_begin_def)
  }
next
  fix err
  assume failed: "snd (settle out (sendAudio_begin b st)) = Some err"
  note frame = await_backend_failed [OF failed]
  {
    fix res data t
    assume "out = Resolved res \<and> ok res \<and> json_body res = Inr data
                   \<and> get_prop data ''text'' = Some t \<and> truthy t"
    with frame show "sendAudio b out st = st\<lparr>markdown := t, audioUrl := [], isLoading := False,
                       requests := requests (sendAudio_begin b st),
                       toasts := toasts st @ [Toast_error (catch_message err ''Request failed'')]\<rparr>"
      unfolding sendAudio_def by (simp add: sendAudio_begin_def)
  next
    assume "\<nexists>res data t. out = Resolved res \<and> ok res \<and> json_body res = Inr data
                   \<and> get_prop data ''text'' = Some t \<and> truthy t"
    with frame show "sendAudio b out st = st\<lparr>audioUrl := [], isLoading := False,
                       requests := requests (sendAudio_begin b st),
                       toasts := toasts st @ [Toast_error (catch_message err ''Request failed'')]\<rparr>"
      unfolding sendAudio_def by (simp add: sendAudio_begin_def)
  }
next
  fix err
  assume failed: "snd (settle_v1 out (sendAudio_begin_v1 b st)) = Some err"
  note frame = await_backend_v1_failed [OF failed]
  {
    fix res data t
    assume "out = Resolved res \<and> ok res \<and> json_body res = Inr data
                   \<and> get_prop data ''text'' = Some t \<and> truthy t"
    with frame show "sendAudio_v1 b out st = st\<lparr>markdown := t, audioUrl := [], isLoading := False,
                       requests := requests (sendAudio_begin_v1 b st),
                       objectUrls := objectUrls (sendAudio_begin_v1 b st),
                       toasts := toasts st @ [Toast_error (catch_message err ''Request failed'')]\<rparr>"
      unfolding sendAudio_v1_def by (simp add: sendAudio_begin_v1_def Let_def revokeObjectURL_def)
  next
    assume "\<nexists>res data t. out = Resolved res \<and> ok res \<and> json_body res = Inr data
                   \<and> get_prop data ''text'' = Some t \<and> truthy t"
    with frame show "sendAudio_v1 b out st = st\<lparr>audioUrl := [], isLoading := False,
                       requests := requests (sendAudio_begin_v1 b st),
                       objectUrls := objectUrls (sendAudio_begin_v1 b st),
                       toasts := toasts st @ [Toast_error (catch_message err ''Request failed'')]\<rparr>"
      unfolding sendAudio_v1_def by (simp add: sendAudio_begin_v1_def Let_def revokeObjectURL_def)
  }
qed

theorem failed_send_frame_witness:
  "trim (textQuery (initial\<lparr>markdown := JStr ''old'', audioUrl := ''blob:7''\<rparr>)) = []
   \<and> snd (settle (Rejected (TypeError ''Failed to fetch'')) (sendAudio_begin (new_Blob [1, 2, 3] ''audio/webm'') (initial\<lparr>markdown := JStr ''old'', audioUrl := ''blob:7''\<rparr>))) = Some (TypeError ''Failed to fetch'')
   \<and> markdown (sendAudio (new_Blob [1, 2, 3] ''audio/webm'') (Rejected (TypeError ''Failed to fetch'')) (initial\<lparr>markdown := JStr ''old'', audioUrl := ''blob:7''\<rparr>)) = JStr ''old''
   \<and> audioUrl (sendAudio (new_Blob [1, 2, 3] ''audio/webm'') (Rejected (TypeError ''Failed to fetch'')) (initial\<lparr>markdown := JStr ''old'', audioUrl := ''blob:7''\<rparr>)) = []
   \<and> markdown (sendAudio_v1 (new_Blob [1, 2, 3] ''audio/webm'') (Rejected (TypeError ''Failed to fetch'')) (initial\<lparr>markdown := JStr ''old'', audioUrl := ''blob:7''\<rparr>)) = JStr ''old''
   \<and> audioUrl (sendAudio_v1 (new_Blob [1, 2, 3] ''audio/webm'') (Rejected (TypeError ''Failed to fetch'')) (initial\<lparr>markdown := JStr ''old'', audioUrl := ''blob:7''\<rparr>)) = []
   \<and> snd (settle (Resolved (json_response 200 ''OK'' (JObj [(''text'', JStr ''new''), (''audio_b64'', JStr ''*'')]))) (sendAudio_begin (new_Blob [1, 2, 3] ''audio/webm'') (initial\<lparr>markdown := JStr ''old'', audioUrl := ''blob:7''\<rparr>))) \<noteq> None
   \<and> markdown (sendAudio (new_Blob [1, 2, 3] ''audio/webm'') (Resolved (json_response 200 ''OK'' (JObj [(''text'', JStr ''new''), (''audio_b64'', JStr ''*'')]))) (initial\<lparr>markdown := JStr ''old'', audioUrl := ''blob:7''\<rparr>)) = JStr ''new''
   \<and> audioUrl (sendAudio (new_Blob [1, 2, 3] ''audio/webm'') (Resolved (json_response 200 ''OK'' (JObj [(''text'', JStr ''new''), (''audio_b64'', JStr ''*'')]))) (initial\<lparr>markdown := JStr ''old'', audioUrl := ''blob:7''\<rparr>)) = []
   \<and> trim (textQuery (initial\<lparr>textQuery := ''hi'', markdown := JStr ''old'', audioUrl := ''blob:7''\<rparr>)) \<noteq> []
   \<and> markdown (sendText (Rejected (TypeError ''Failed to fetch'')) (initial\<lparr>textQuery := ''hi'', markdown := JStr ''old'', audioUrl := ''blob:7''\<rparr>)) = JStr ''old''
   \<and> audioUrl (sendText (Rejected (TypeError ''Failed to fetch'')) (initial\<lparr>textQuery := ''hi'', markdown := JStr ''old'', audioUrl := ''blob:7''\<rparr>)) = []"
proof -
  let ?V = "initial\<lparr>markdown := JStr ''old'', audioUrl := ''blob:7''\<rparr>"
  let ?T = "initial\<lparr>textQuery := ''hi'', markdown := JStr ''old'', audioUrl := ''blob:7''\<rparr>"
  let ?b = "new_Blob [1, 2, 3] ''audio/webm''"
  let ?bad = "json_response 200 ''OK'' (JObj [(''text'', JStr ''new''), (''audio_b64'', JStr ''*'')])"
  have voice: "trim (textQuery ?V) = []"
    by (simp add: initial_def trim_def trimStart_def trimEnd_def)
  have typed: "trim (textQuery ?T) \<noteq> []"
    by (simp add: trim_hi)
  have rejected: "snd (settle (Rejected (TypeError ''Failed to fetch'')) s) = Some (TypeError ''Failed to fetch'')"
    "snd (settle_v1 (Rejected (TypeError ''Failed to fetch'')) s) = Some (TypeError ''Failed to fetch'')" for s
    by (simp_all add: settle_def settle_v1_def)
  have none: "\<nexists>res data t. Rejected (TypeError ''Failed to fetch'') = Resolved res \<and> ok res \<and> json_body res = Inr data
                   \<and> get_prop data ''text'' = Some t \<and> truthy t"
    by simp
  have undecodable: "snd (settle (Resolved ?bad) s) = Some (DOMException ''InvalidCharacterError'' ''Invalid character'')" for s
    by (simp add: settle_undecodable)
  note audio = failed_send_frame [of ?V "Rejected (TypeError ''Failed to fetch'')" ?b, THEN conjunct2, THEN conjunct1, THEN spec, THEN mp,
      OF rejected(1), THEN conjunct2, THEN mp, OF none]
  note audio_v1 = failed_send_frame [of ?V "Rejected (TypeError ''Failed to fetch'')" ?b, THEN conjunct2, THEN conjunct2, THEN spec, THEN mp,
      OF rejected(2), THEN conjunct2, THEN mp, OF none]
  note pinned = failed_send_frame [of ?V "Resolved ?bad" ?b, THEN conjunct2, THEN conjunct1, THEN spec, THEN mp,
      OF undecodable, THEN conjunct1, THEN spec, THEN spec, THEN spec, THEN mp, OF undecodable_reply]
  note typed_frame = failed_send_frame [of ?T "Rejected (TypeError ''Failed to fetch'')" ?b, THEN conjunct1, THEN mp, OF typed, THEN spec, THEN mp,
      OF rejected(1), THEN conjunct2, THEN mp, OF none]
  show ?thesis
    using voice typed by (simp add: rejected undecodable audio audio_v1 pinned typed_frame)
qed

text \<open>
  C9, as stated, fails for the markdown: \<open>handleBackendJson\<close> replaces it only when
  the reply carries a truthy \<open>text\<close>. After a successful reply that holds audio and no
  text, the new audio is shown beside the markdown of the earlier reply.
\<close>

theorem successful_send_keeps_markdown_counterexample:
  "snd (settle (Resolved (json_response 200 ''OK'' (JObj [(''audio_b64'', JStr ''QQ=='')])))
          (sendText_begin (initial\<lparr>textQuery := ''hi'', markdown := JStr ''old''\<rparr>))) = None
   \<and> toasts (sendText (Resolved (json_response 200 ''OK'' (JObj [(''audio_b64'', JStr ''QQ=='')])))
          (initial\<lparr>textQuery := ''hi'', markdown := JStr ''old''\<rparr>)) = []
   \<and> markdown (sendText (Resolved (json_response 200 ''OK'' (JObj [(''audio_b64'', JStr ''QQ=='')])))
          (initial\<lparr>textQuery := ''hi'', markdown := JStr ''old''\<rparr>)) = JStr ''old''
   \<and> audioUrl (sendText (Resolved (json_response 200 ''OK'' (JObj [(''audio_b64'', JStr ''QQ=='')])))
          (initial\<lparr>textQuery := ''hi'', markdown := JStr ''old''\<rparr>)) = ''blob:0''
   \<and> objectUrls (sendText (Resolved (json_response 200 ''OK'' (JObj [(''audio_b64'', JStr ''QQ=='')])))
          (initial\<lparr>textQuery := ''hi'', markdown := JStr ''old''\<rparr>))
       = [(''blob:0'', \<lparr>blob_bytes = [65], blob_type = ''audio/mpeg''\<rparr>)]"
proof -
  have enc: "base64_encode [65] = ''QQ==''"
    by (simp add: base64_encode_def b64_char_def b64_alphabet_def replicate_two)
  have "atob (base64_encode [65]) = Inr [65]"
    using atob_base64_encode [of "[65]"] by simp
  then have decoded: "base64ToBlob ''QQ=='' (Some ''audio/mpeg'')
      = Inr \<lparr>blob_bytes = [65], blob_type = ''audio/mpeg''\<rparr>"
    by (simp add: enc base64ToBlob_def new_Blob_def ascii_lower_def)
  have settled: "\<And>s. audioUrl s = [] \<Longrightarrow> urlCounter s = 0 \<Longrightarrow>
      settle (Resolved (json_response 200 ''OK'' (JObj [(''audio_b64'', JStr ''QQ=='')]))) s
        = (s\<lparr>objectUrls := objectUrls s @ [(''blob:0'', \<lparr>blob_bytes = [65], blob_type = ''audio/mpeg''\<rparr>)],
              urlCounter := 1, audioUrl := ''blob:0''\<rparr>, None)"
    by (simp add: settle_def ok_def json_response_def handleBackendJson_def base64ToBlob_any_def
          decoded or_else_def createObjectURL_def show_nat_0 Let_def)
  have start: "audioUrl (sendText_begin (initial\<lparr>textQuery := ''hi'', markdown := JStr ''old''\<rparr>)) = []"
    "urlCounter (sendText_begin (initial\<lparr>textQuery := ''hi'', markdown := JStr ''old''\<rparr>)) = 0"
    by (simp_all add: sendText_begin_def initial_def)
  show ?thesis
    by (simp add: sendText_def trim_hi await_backend_alt settled [OF start])
       (simp add: sendText_begin_def initial_def)
qed

text \<open>
  C9, amended. After every successful send (\<open>sendAudio\<close> of either version in any
  state, \<open>sendText\<close> for a text that its guard lets through), the audio shown comes
  from this reply alone: it is the object URL made for the blob decoded
  from the \<open>audio_b64\<close> of the reply, or none when the reply has no truthy
  \<open>audio_b64\<close>. The markdown shown is the \<open>text\<close> of the reply when that is
  truthy, and the markdown of the earlier reply otherwise.
\<close>

theorem successful_send_reply:
  "(trim (textQuery st) \<noteq> [] \<longrightarrow> snd (settle out (sendText_begin st)) = None \<longrightarrow>
          (\<exists>res data. out = Resolved res \<and> ok res \<and> json_body res = Inr data
            \<and> (\<forall>t. get_prop data ''text'' = Some t \<and> truthy t \<longrightarrow> markdown (sendText out st) = t)
            \<and> (\<not> truthy_opt (get_prop data ''text'') \<longrightarrow> markdown (sendText out st) = markdown st)
            \<and> (\<not> truthy_opt (get_prop data ''audio_b64'') \<longrightarrow>
                 audioUrl (sendText out st) = [] \<and> objectUrls (sendText out st) = objectUrls (st))
            \<and> (\<forall>a. get_prop data ''audio_b64'' = Some a \<and> truthy a \<longrightarrow>
                 (\<exists>d. base64ToBlob_any a (Some (to_str (or_else (get_prop data ''mime'') (JStr ''audio/mpeg'')))) = Inr d
                    \<and> audioUrl (sendText out st) = ''blob:'' @ show_nat (urlCounter st)
                    \<and> objectUrls (sendText out st) = objectUrls (st) @ [(''blob:'' @ show_nat (urlCounter st), d)]))))
       \<and> (snd (settle out (sendAudio_begin b st)) = None \<longrightarrow>
          (\<exists>res data. out = Resolved res \<and> ok res \<and> json_body res = Inr data
            \<and> (\<forall>t. get_prop data ''text'' = Some t \<and> truthy t \<longrightarrow> markdown (sendAudio b out st) = t)
            \<and> (\<not> truthy_opt (get_prop data ''text'') \<longrightarrow> markdown (sendAudio b out st) = markdown st)
            \<and> (\<not> truthy_opt (get_prop data ''audio_b64'') \<longrightarrow>
                 audioUrl (sendAudio b out st) = [] \<and> objectUrls (sendAudio b out st) = objectUrls (st))
            \<and> (\<forall>a. get_prop data ''audio_b64'' = Some a \<and> truthy a \<longrightarrow>
                 (\<exists>d. base64ToBlob_any a (Some (to_str (or_else (get_prop data ''mime'') (JStr ''audio/mpeg'')))) = Inr d
                    \<and> audioUrl (sendAudio b out st) = ''blob:'' @ show_nat (urlCounter st)
                    \<and> objectUrls (sendAudio b out st) = objectUrls (st) @ [(''blob:'' @ show_nat (urlCounter st), d)]))))
       \<and> (snd (settle_v1 out (sendAudio_begin_v1 b st)) = None \<longrightarrow>
          (\<exists>res data. out = Resolved res \<and> ok res \<and> json_body res = Inr data
            \<and> (\<forall>t. get_prop data ''text'' = Some t \<and> truthy t \<longrightarrow> markdown (sendAudio_v1 b out st) = t)
            \<and> (\<not> truthy_opt (get_prop data ''text'') \<longrightarrow> markdown (sendAudio_v1 b out st) = markdown st)
            \<and> (\<not> truthy_opt (get_prop data ''audio_b64'') \<longrightarrow>
                 audioUrl (sendAudio_v1 b out st) = [] \<and> objectUrls (sendAudio_v1 b out st) = objectUrls (sendAudio_begin_v1 b st))
            \<and> (\<forall>a. get_prop data ''audio_b64'' = Some a \<and> truthy a \<longrightarrow>
                 (\<exists>d. base64ToBlob_any a (Some (to_str (or_else (get_prop data ''mime'') (JStr ''audio/mpeg'')))) = Inr d
                    \<and> audioUrl (sendAudio_v1 b out st) = ''blob:'' @ show_nat (urlCounter st)
                    \<and> objectUrls (sendAudio_v1 b out st) = objectUrls (sendAudio_begin_v1 b st) @ [(''blob:'' @ show_nat (urlCounter st), d)]))))"
proof (intro conjI impI)
  assume guard: "trim (textQuery st) \<noteq> []"
    and success: "snd (settle out (sendText_begin st)) = None"
  have start: "audioUrl (sendText_begin st) = []" "markdown (sendText_begin st) = markdown st"
    "urlCounter (sendText_begin st) = urlCounter st" "objectUrls (sendText_begin st) = objectUrls st"
    by (simp_all add: sendText_begin_def)
  have send: "sendText out st = await_backend out (sendText_begin st)"
    using guard by (simp add: sendText_def)
  show "(\<exists>res data. out = Resolved res \<and> ok res \<and> json_body res = Inr data
            \<and> (\<forall>t. get_prop data ''text'' = Some t \<and> truthy t \<longrightarrow> markdown (sendText out st) = t)
            \<and> (\<not> truthy_opt (get_prop data ''text'') \<longrightarrow> markdown (sendText out st) = markdown st)
            \<and> (\<not> truthy_opt (get_prop data ''audio_b64'') \<longrightarrow>
                 audioUrl (sendText out st) = [] \<and> objectUrls (sendText out st) = objectUrls (st))
            \<and> (\<forall>a. get_prop data ''audio_b64'' = Some a \<and> truthy a \<longrightarrow>
                 (\<exists>d. base64ToBlob_any a (Some (to_str (or_else (get_prop data ''mime'') (JStr ''audio/mpeg'')))) = Inr d
                    \<and> audioUrl (sendText out st) = ''blob:'' @ show_nat (urlCounter st)
                    \<and> objectUrls (sendText out st) = objectUrls (st) @ [(''blob:'' @ show_nat (urlCounter st), d)])))"
    using await_backend_ok [OF success start(1)] by (simp only: send start(2-4))
next
  assume success: "snd (settle out (sendAudio_begin b st)) = None"
  have start: "audioUrl (sendAudio_begin b st) = []" "markdown (sendAudio_begin b st) = markdown st"
    "urlCounter (sendAudio_begin b st) = urlCounter st" "objectUrls (sendAudio_begin b st) = objectUrls st"
    by (simp_all add: sendAudio_begin_def)
  show "(\<exists>res data. out = Resolved res \<and> ok res \<and> json_body res = Inr data
            \<and> (\<forall>t. get_prop data ''text'' = Some t \<and> truthy t \<longrightarrow> markdown (sendAudio b out st) = t)
            \<and> (\<not> truthy_opt (get_prop data ''text'') \<longrightarrow> markdown (sendAudio b out st) = markdown st)
            \<and> (\<not> truthy_opt (get_prop data ''audio_b64'') \<longrightarrow>
                 audioUrl (sendAudio b out st) = [] \<and> objectUrls (sendAudio b out st) = objectUrls (st))
            \<and> (\<forall>a. get_prop data ''audio_b64'' = Some a \<and> truthy a \<longrightarrow>
                 (\<exists>d. base64ToBlob_any a (Some (to_str (or_else (get_prop data ''mime'') (JStr ''audio/mpeg'')))) = Inr d
                    \<and> audioUrl (sendAudio b out st) = ''blob:'' @ show_nat (urlCounter st)
                    \<and> objectUrls (sendAudio b out st) = objectUrls (st) @ [(''blob:'' @ show_nat (urlCounter st), d)])))"
    using await_backend_ok [OF success start(1)] by (simp only: sendAudio_def start(2-4))
next
  assume success: "snd (settle_v1 out (sendAudio_begin_v1 b st)) = None"
  have start: "audioUrl (sendAudio_begin_v1 b st) = []"
    "markdown (sendAudio_begin_v1 b st) = markdown st"
    "urlCounter (sendAudio_begin_v1 b st) = urlCounter st"
    by (simp_all add: sendAudio_begin_v1_def Let_def revokeObjectURL_def)
  show "(\<exists>res data. out = Resolved res \<and> ok res \<and> json_body res = Inr data
            \<and> (\<forall>t. get_prop data ''text'' = Some t \<and> truthy t \<longrightarrow> markdown (sendAudio_v1 b out st) = t)
            \<and> (\<not> truthy_opt (get_prop data ''text'') \<longrightarrow> markdown (sendAudio_v1 b out st) = markdown st)
            \<and> (\<not> truthy_opt (get_prop data ''audio_b64'') \<longrightarrow>
                 audioUrl (sendAudio_v1 b out st) = [] \<and> objectUrls (sendAudio_v1 b out st) = objectUrls (sendAudio_begin_v1 b st))
            \<and> (\<forall>a. get_prop data ''audio_b64'' = Some a \<and> truthy a \<longrightarrow>
                 (\<exists>d. base64ToBlob_any a (Some (to_str (or_else (get_prop data ''mime'') (JStr ''audio/mpeg'')))) = Inr d
                    \<and> audioUrl (sendAudio_v1 b out st) = ''blob:'' @ show_nat (urlCounter st)
                    \<and> objectUrls (sendAudio_v1 b out st) = objectUrls (sendAudio_begin_v1 b st) @ [(''blob:'' @ show_nat (urlCounter st), d)])))"
    using await_backend_v1_ok [OF success start(1)] by (simp only: sendAudio_v1_def start(2-3))
qed

theorem successful_send_reply_witness:
  "trim (textQuery (initial\<lparr>markdown := JStr ''old'', audioUrl := ''blob:7''\<rparr>)) = []
   \<and> snd (settle (Resolved (json_response 200 ''OK'' (JObj [(''text'', JStr ''hello'')]))) (sendAudio_begin (new_Blob [1, 2, 3] ''audio/webm'') (initial\<lparr>markdown := JStr ''old'', audioUrl := ''blob:7''\<rparr>))) = None
   \<and> markdown (sendAudio (new_Blob [1, 2, 3] ''audio/webm'') (Resolved (json_response 200 ''OK'' (JObj [(''text'', JStr ''hello'')]))) (initial\<lparr>markdown := JStr ''old'', audioUrl := ''blob:7''\<rparr>)) = JStr ''hello''
   \<and> audioUrl (sendAudio (new_Blob [1, 2, 3] ''audio/webm'') (Resolved (json_response 200 ''OK'' (JObj [(''text'', JStr ''hello'')]))) (initial\<lparr>markdown := JStr ''old'', audioUrl := ''blob:7''\<rparr>)) = []
   \<and> snd (settle_v1 (Resolved (json_response 200 ''OK'' (JObj [(''text'', JStr ''hello'')]))) (sendAudio_begin_v1 (new_Blob [1, 2, 3] ''audio/webm'') (initial\<lparr>markdown := JStr ''old'', audioUrl := ''blob:7''\<rparr>))) = None
   \<and> markdown (sendAudio_v1 (new_Blob [1, 2, 3] ''audio/webm'') (Resolved (json_response 200 ''OK'' (JObj [(''text'', JStr ''hello'')]))) (initial\<lparr>markdown := JStr ''old'', audioUrl := ''blob:7''\<rparr>)) = JStr ''hello''
   \<and> audioUrl (sendAudio_v1 (new_Blob [1, 2, 3] ''audio/webm'') (Resolved (json_response 200 ''OK'' (JObj [(''text'', JStr ''hello'')]))) (initial\<lparr>markdown := JStr ''old'', audioUrl := ''blob:7''\<rparr>)) = []
   \<and> trim (textQuery (initial\<lparr>textQuery := ''hi'', markdown := JStr ''old'', audioUrl := ''blob:7''\<rparr>)) \<noteq> []
   \<and> snd (settle (Resolved (json_response 200 ''OK'' (JObj [(''text'', JStr ''hello'')]))) (sendText_begin (initial\<lparr>textQuery := ''hi'', markdown := JStr ''old'', audioUrl := ''blob:7''\<rparr>))) = None
   \<and> markdown (sendText (Resolved (json_response 200 ''OK'' (JObj [(''text'', JStr ''hello'')]))) (initial\<lparr>textQuery := ''hi'', markdown := JStr ''old'', audioUrl := ''blob:7''\<rparr>)) = JStr ''hello''
   \<and> audioUrl (sendText (Resolved (json_response 200 ''OK'' (JObj [(''text'', JStr ''hello'')]))) (initial\<lparr>textQuery := ''hi'', markdown := JStr ''old'', audioUrl := ''blob:7''\<rparr>)) = []"
proof -
  let ?V = "initial\<lparr>markdown := JStr ''old'', audioUrl := ''blob:7''\<rparr>"
  let ?T = "initial\<lparr>textQuery := ''hi'', markdown := JStr ''old'', audioUrl := ''blob:7''\<rparr>"
  let ?b = "new_Blob [1, 2, 3] ''audio/webm''"
  let ?reply = "Resolved (json_response 200 ''OK'' (JObj [(''text'', JStr ''hello'')]))"
  have voice: "trim (textQuery ?V) = []"
    by (simp add: initial_def trim_def trimStart_def trimEnd_def)
  have typed: "trim (textQuery ?T) \<noteq> []"
    by (simp add: trim_hi)
  have success: "snd (settle ?reply s) = None" "snd (settle_v1 ?reply s) = None" for s
    by (simp_all add: settle_text_reply)
  have audio: "markdown (sendAudio ?b ?reply ?V) = JStr ''hello'' \<and> audioUrl (sendAudio ?b ?reply ?V) = []"
    using successful_send_reply [of ?V ?reply ?b, THEN conjunct2, THEN conjunct1, THEN mp, OF success(1)]
    by (simp add: json_response_def truthy_opt_def)
  have audio_v1: "markdown (sendAudio_v1 ?b ?reply ?V) = JStr ''hello'' \<and> audioUrl (sendAudio_v1 ?b ?reply ?V) = []"
    using successful_send_reply [of ?V ?reply ?b, THEN conjunct2, THEN conjunct2, THEN mp, OF success(2)]
    by (simp add: json_response_def truthy_opt_def)
  have text_reply: "markdown (sendText ?reply ?T) = JStr ''hello'' \<and> audioUrl (sendText ?reply ?T) = []"
    using successful_send_reply [of ?T ?reply ?b, THEN conjunct1, THEN mp, OF typed, THEN mp, OF success(1)]
    by (simp add: json_response_def truthy_opt_def)
  show ?thesis
    using voice typed audio audio_v1 text_reply by (simp add: success)
qed

section \<open>A request made of white space\<close>

text \<open>
  C10. A text made only of whitespace characters (the empty text included) is turned away
  locally: \<open>sendText\<close> and \<open>handleSubmit\<close> add one error toast and change
  nothing else, so no request is issued and the displayed markdown, the audio and the loading
  flag stay as they were.
\<close>

theorem blank_text_rejected:
  assumes "set ws \<subseteq> set white_space" and "textQuery st = concat ws" and "input ist = concat ws"
  shows "sendText out st = st\<lparr>toasts := toasts st @ [Toast_error ''Please enter a request.'']\<rparr>
       \<and> requests (sendText out st) = requests st
       \<and> markdown (sendText out st) = markdown st
       \<and> audioUrl (sendText out st) = audioUrl st
       \<and> isLoading (sendText out st) = isLoading st
       \<and> handleSubmit out ist = ist\<lparr>toasts' := toasts' ist @ [Toast_error ''Please enter a request'']\<rparr>
       \<and> requests' (handleSubmit out ist) = requests' ist
       \<and> markdown' (handleSubmit out ist) = markdown' ist
       \<and> isLoading' (handleSubmit out ist) = isLoading' ist"
  using trim_blank [OF assms(1)] assms(2,3)
  by (simp add: sendText_def handleSubmit_def toast_error_def)

theorem blank_text_rejected_witness:
  "set ['' '', [CHR 0x09], [CHR 0xC2, CHR 0xA0]] \<subseteq> set white_space
   \<and> requests (sendText (Rejected (TypeError ''Failed to fetch''))
         (initial\<lparr>textQuery := concat ['' '', [CHR 0x09], [CHR 0xC2, CHR 0xA0]]\<rparr>)) = []
   \<and> requests' (handleSubmit (Rejected (TypeError ''Failed to fetch''))
         (initial_improved\<lparr>input := concat ['' '', [CHR 0x09], [CHR 0xC2, CHR 0xA0]]\<rparr>)) = []"
  using blank_text_rejected
    [of "['' '', [CHR 0x09], [CHR 0xC2, CHR 0xA0]]"
        "initial\<lparr>textQuery := concat ['' '', [CHR 0x09], [CHR 0xC2, CHR 0xA0]]\<rparr>"
        "initial_improved\<lparr>input := concat ['' '', [CHR 0x09], [CHR 0xC2, CHR 0xA0]]\<rparr>"
        "Rejected (TypeError ''Failed to fetch'')"]
  by (simp add: white_space_def initial_def initial_improved_def)

end
